theory Spec2Isabelle
  imports Main "HOL-Library.Word"
begin

unbundle bit_operations_syntax

section \<open>Machine integers and faults\<close>

text \<open>
  The C \<^verbatim>\<open>int\<close>s of \<^verbatim>\<open>bsc_mgcp_utils.c\<close> (endpoint numbers, multiplexes, timeslots,
  ports) are modelled as \<^typ>\<open>int\<close>: the values the allocator computes stay far inside
  32 bits (an endpoint number is at most \<open>32 * number_multiplexes\<close>).  Where the source
  narrows a value (\<^verbatim>\<open>uint8_t\<close>, \<^verbatim>\<open>uint16_t\<close>, \<^verbatim>\<open>unsigned int\<close>) the narrowing is
  written out with words or with \<open>mod\<close>.  Allocation failure of \<^verbatim>\<open>talloc\<close> and
  \<^verbatim>\<open>msgb_alloc\<close> is not modelled: allocations of a non-negative size succeed.

  An access outside an array, a write past a buffer and the abort of \<^verbatim>\<open>msgb_put\<close> are
  results of their own, so that no theorem silently reads an unspecified value.
\<close>

datatype fault = MemoryFault | MsgbAbort | ScanOverflow

type_synonym u8 = "8 word"
type_synonym u16 = "16 word"

definition c_quot :: "int \<Rightarrow> int \<Rightarrow> int" where
  \<comment> \<open>C's \<^verbatim>\<open>/\<close> on \<^verbatim>\<open>int\<close>: the quotient is truncated towards zero.\<close>
  "c_quot a b = sgn a * sgn b * (\<bar>a\<bar> div \<bar>b\<bar>)"

definition c_rem :: "int \<Rightarrow> int \<Rightarrow> int" where
  \<comment> \<open>C's \<^verbatim>\<open>%\<close>: the remainder that goes with \<^const>\<open>c_quot\<close>.\<close>
  "c_rem a b = a - b * c_quot a b"

definition u32 :: "int \<Rightarrow> int" where
  \<comment> \<open>Conversion of an \<^verbatim>\<open>int\<close> to \<^verbatim>\<open>unsigned int\<close>.\<close>
  "u32 x = x mod 2 ^ 32"

section \<open>Endpoint numbering\<close>

text \<open>
  Modelled from the spec: \<^verbatim>\<open>mgcp_endpoint_to_timeslot\<close> and \<^verbatim>\<open>mgcp_timeslot_to_endpoint\<close>
  are inline helpers of the header \<^verbatim>\<open>openbsc/mgcp.h\<close>, which is not among the sources.
  The spec (section 3): an endpoint id encodes a (multiplex, timeslot) pair, the timeslot
  occupies the low 5 bits, the multiplex occupies the bits above.
\<close>

definition mgcp_endpoint_to_timeslot :: "int \<Rightarrow> int \<times> int" where
  \<comment> \<open>Modelled from the spec: the result is (multiplex, timeslot).\<close>
  "mgcp_endpoint_to_timeslot endpoint = (endpoint div 32, endpoint mod 32)"

definition mgcp_timeslot_to_endpoint :: "int \<Rightarrow> int \<Rightarrow> int" where
  \<comment> \<open>Modelled from the spec: the inverse of \<^const>\<open>mgcp_endpoint_to_timeslot\<close>.\<close>
  "mgcp_timeslot_to_endpoint multiplex timeslot = timeslot + 32 * multiplex"

definition bsc_mgcp_nr_multiplexes :: "int \<Rightarrow> int" where
  "bsc_mgcp_nr_multiplexes max_endpoints =
     (let d = c_quot max_endpoints 32
      in if c_rem max_endpoints 32 \<noteq> 0 then d + 1 else d)"

section \<open>BSC connections and SCCP connections\<close>

text \<open>
  \<^verbatim>\<open>struct bsc_connection\<close>, with the fields this file reads or writes.  \<open>cfg_max_endpoints\<close>
  is \<^verbatim>\<open>con->cfg\<close>: \<open>None\<close> for a null pointer, otherwise the configured
  \<^verbatim>\<open>max_endpoints\<close>.  \<open>endpoint_status\<close> is \<^verbatim>\<open>_endpoint_status\<close>: \<open>None\<close> while it is
  not allocated.  \<open>peer_addr\<close> is what \<^verbatim>\<open>getpeername\<close> reports for the connection's
  socket (\<open>None\<close> when it fails) and \<open>bsc_out\<close> collects what \<^verbatim>\<open>bsc_write\<close> and
  \<^verbatim>\<open>bsc_write_mgcp\<close> hand to the BSC's write queue, oldest first.
\<close>

record bsc_connection =
  cfg_max_endpoints :: "int option"
  number_multiplexes :: int
  max_endpoints :: int
  last_endpoint :: int
  endpoint_status :: "u8 list option"
  peer_addr :: "32 word option"
  bsc_out :: "string list"

text \<open>
  \<^verbatim>\<open>struct sccp_connections\<close>: \<open>con_bsc\<close> is the pointer \<^verbatim>\<open>con->bsc\<close>, an address in the
  store of BSC connections.
\<close>

record sccp_connections =
  con_bsc :: nat
  msc_endp :: int
  bsc_endp :: int

definition bsc_init_endps_if_needed :: "bsc_connection \<Rightarrow> int \<times> bsc_connection" where
  "bsc_init_endps_if_needed con =
     (if endpoint_status con \<noteq> None then (0, con)
      else case cfg_max_endpoints con of
        None \<Rightarrow> (-1, con)
      | Some cfg_max \<Rightarrow>
          (let multiplexes = bsc_mgcp_nr_multiplexes cfg_max;
               con1 = con\<lparr>number_multiplexes := multiplexes, max_endpoints := cfg_max\<rparr>
           in if 32 * multiplexes + 1 < 0 then (1, con1)
              else (0, con1\<lparr>endpoint_status :=
                      Some (replicate (nat (32 * multiplexes + 1)) 0)\<rparr>)))"

subsection \<open>The endpoint allocator\<close>

text \<open>
  One round of the loop of \<^verbatim>\<open>bsc_assign_endpoint\<close> up to the test of the status byte
  (lines 123 to 143): the cursor (multiplex, timeslot) is normalised and the endpoint to
  look at is derived.  The result is (multiplex, timeslot, endpoint).
\<close>

definition scan_slot :: "bsc_connection \<Rightarrow> int \<Rightarrow> int \<Rightarrow> int \<times> int \<times> int" where
  "scan_slot b multiplex timeslot =
     (let ts1 = (if timeslot = 0 then 1 else timeslot);
          ts2 = (if ts1 = 0x1f then 1 else ts1);
          mx2 = (if ts1 = 0x1f then multiplex + 1 else multiplex);
          mx3 = (if mx2 \<ge> number_multiplexes b then 0 else mx2);
          endpoint = mgcp_timeslot_to_endpoint mx3 ts2
      in if endpoint \<ge> max_endpoints b
         then (0, 1, mgcp_timeslot_to_endpoint 0 1)
         else (mx3, ts2, endpoint))"

text \<open>
  The \<^verbatim>\<open>for\<close> loop, by the number of rounds left.  Reading the status byte through a
  null \<^verbatim>\<open>_endpoint_status\<close> or outside the array is a \<^const>\<open>MemoryFault\<close>.
\<close>

fun assign_loop ::
  "nat \<Rightarrow> int \<Rightarrow> int \<Rightarrow> bsc_connection \<Rightarrow> sccp_connections
     \<Rightarrow> fault + (int \<times> bsc_connection \<times> sccp_connections)" where
  "assign_loop 0 multiplex timeslot b con = Inr (-1, b, con)"
| "assign_loop (Suc n) multiplex timeslot b con =
     (case scan_slot b multiplex timeslot of (mx, ts, endpoint) \<Rightarrow>
        (case endpoint_status b of
           None \<Rightarrow> Inl MemoryFault
         | Some st \<Rightarrow>
             if endpoint < 0 \<or> int (length st) \<le> endpoint then Inl MemoryFault
             else if st ! nat endpoint = 0
             then Inr (0,
                       b\<lparr>endpoint_status := Some (st[nat endpoint := 1]),
                         last_endpoint := endpoint\<rparr>,
                       con\<lparr>bsc_endp := endpoint\<rparr>)
             else assign_loop n mx (ts + 1) b con))"

definition bsc_assign_endpoint ::
  "bsc_connection \<Rightarrow> sccp_connections
     \<Rightarrow> fault + (int \<times> bsc_connection \<times> sccp_connections)" where
  "bsc_assign_endpoint b con =
     (let number_endpoints = max_endpoints b
      in case mgcp_endpoint_to_timeslot (last_endpoint b) of (multiplex, timeslot) \<Rightarrow>
           assign_loop (nat number_endpoints) multiplex (timeslot + 1) b con)"

subsection \<open>Circuit identity codes\<close>

definition cic_of_timeslot :: "int \<Rightarrow> int \<Rightarrow> u16" where
  \<comment> \<open>The value \<^verbatim>\<open>create_cic\<close> returns: \<^verbatim>\<open>(multiplex << 5) | (timeslot & 0x1f)\<close>,
      converted to \<^verbatim>\<open>uint16_t\<close>.\<close>
  "cic_of_timeslot multiplex timeslot =
     word_of_int (push_bit 5 multiplex OR (timeslot AND 0x1f))"

definition create_cic :: "int \<Rightarrow> u16" where
  "create_cic endpoint =
     (case mgcp_endpoint_to_timeslot endpoint of (multiplex, timeslot) \<Rightarrow>
        cic_of_timeslot multiplex timeslot)"

definition cic_to_timeslot :: "u16 \<Rightarrow> int \<times> int" where
  \<comment> \<open>Lines 193 and 194 of \<^verbatim>\<open>bsc_mgcp_assign_patch\<close>: both variables are
      \<^verbatim>\<open>uint8_t\<close>.  The result is (multiplex, timeslot).\<close>
  "cic_to_timeslot cic =
     (let timeslot = (ucast (cic AND 0x1f) :: u8);
          multiplex = (ucast (drop_bit 5 (cic AND NOT 0x1f)) :: u8)
      in (uint multiplex, uint timeslot))"


subsection \<open>The allocator as the spec describes it\<close>

text \<open>
  The scan of section 4.1 of the spec, written on endpoint ids: the slot after \<open>e\<close>
  advances the timeslot, then the multiplex; timeslots 0 and 31 are skipped (timeslot 1
  of the next multiplex), the multiplex wraps to 0 at \<open>number_multiplexes\<close>, and a
  derived id of \<open>max_endpoints\<close> or more resets the cursor to multiplex 0, timeslot 1.
  \<open>spec_scan b n e\<close> lists the \<open>n\<close> slots after \<open>e\<close> in scan order and
  \<open>spec_allocate\<close> claims the first of them whose status byte is 0.
\<close>

definition spec_next_slot :: "bsc_connection \<Rightarrow> int \<Rightarrow> int" where
  "spec_next_slot b e =
     (let ts = e mod 32 + 1;
          mx = (if ts = 31 then e div 32 + 1 else e div 32);
          ts1 = (if ts = 31 \<or> ts = 0 then 1 else ts);
          mx1 = (if mx \<ge> number_multiplexes b then 0 else mx);
          cand = 32 * mx1 + ts1
      in if cand \<ge> max_endpoints b then 1 else cand)"

fun spec_scan :: "bsc_connection \<Rightarrow> nat \<Rightarrow> int \<Rightarrow> int list" where
  "spec_scan b 0 e = []"
| "spec_scan b (Suc n) e = spec_next_slot b e # spec_scan b n (spec_next_slot b e)"

definition spec_allocate ::
  "bsc_connection \<Rightarrow> u8 list \<Rightarrow> sccp_connections
     \<Rightarrow> int \<times> bsc_connection \<times> sccp_connections" where
  "spec_allocate b st con =
     (case find (\<lambda>e. st ! nat e = 0)
             (spec_scan b (nat (max_endpoints b)) (last_endpoint b)) of
        None \<Rightarrow> (-1, b, con)
      | Some e \<Rightarrow>
          (0, b\<lparr>endpoint_status := Some (st[nat e := 1]), last_endpoint := e\<rparr>,
           con\<lparr>bsc_endp := e\<rparr>))"

definition spec_cic_decode :: "u16 \<Rightarrow> int \<times> int" where
  \<comment> \<open>The inverse as section 4.1 of the spec words it: timeslot = cic & 0x1f,
      multiplex = cic >> 5.  The result is (multiplex, timeslot).\<close>
  "spec_cic_decode cic = (uint (drop_bit 5 cic), uint (cic AND 0x1f))"

subsection \<open>Example states\<close>

definition ex_bsc :: "int \<Rightarrow> bsc_connection" where
  \<comment> \<open>A BSC connection as \<^verbatim>\<open>talloc_zero\<close> leaves it, configured with \<open>m\<close> endpoints.\<close>
  "ex_bsc m =
     \<lparr>cfg_max_endpoints = Some m, number_multiplexes = 0, max_endpoints = 0,
      last_endpoint = 0, endpoint_status = None, peer_addr = Some 0x0A000002, bsc_out = []\<rparr>"

definition ex_con :: sccp_connections where
  \<comment> \<open>An SCCP connection of BSC 0 after \<^verbatim>\<open>bsc_mgcp_init\<close>.\<close>
  "ex_con = \<lparr>con_bsc = 0, msc_endp = -1, bsc_endp = -1\<rparr>"

definition ex_bsc_busy :: bsc_connection where
  \<comment> \<open>A BSC with 64 endpoints: endpoint 30 was handed out last, 33 is in use as well.\<close>
  "ex_bsc_busy =
     \<lparr>cfg_max_endpoints = Some 64, number_multiplexes = 2, max_endpoints = 64,
      last_endpoint = 30, endpoint_status = Some ((replicate 65 0)[30 := 1, 33 := 1]),
      peer_addr = Some 0x0A000002, bsc_out = []\<rparr>"

section \<open>C strings, \<^verbatim>\<open>printf\<close> and \<^verbatim>\<open>sscanf\<close>\<close>

text \<open>
  A C string is modelled by its bytes before the terminating NUL.  \<open>c_str\<close> reads
  a buffer as a C string.  The directives of \<^verbatim>\<open>sscanf\<close> and \<^verbatim>\<open>printf\<close> that the source
  uses are functions of their own: white space is what \<^verbatim>\<open>isspace\<close> accepts in the C
  locale, \<^verbatim>\<open>%d\<close> and \<^verbatim>\<open>%u\<close> skip white space, take an optional sign and at least one
  decimal digit, \<^verbatim>\<open>%s\<close> skips white space and takes the characters up to the next
  white space.  A scanner returns the converted value and the rest of the input, or
  \<open>None\<close> when the directive does not match.
\<close>

abbreviation LF :: char where "LF \<equiv> CHR 0x0A"
abbreviation CR :: char where "CR \<equiv> CHR 0x0D"
abbreviation NUL :: char where "NUL \<equiv> CHR 0x00"

definition c_str :: "string \<Rightarrow> string" where
  "c_str buf = takeWhile (\<lambda>c. c \<noteq> NUL) buf"

definition isspace :: "char \<Rightarrow> bool" where
  "isspace c = (c \<in> set [CHR '' '', CHR 0x09, LF, CHR 0x0B, CHR 0x0C, CR])"

definition isdigit :: "char \<Rightarrow> bool" where
  "isdigit c = (48 \<le> (of_char c :: nat) \<and> (of_char c :: nat) \<le> 57)"

definition dec_value :: "string \<Rightarrow> nat" where
  "dec_value ds = foldl (\<lambda>a c. 10 * a + ((of_char c :: nat) - 48)) 0 ds"

definition scan_number :: "nat option \<Rightarrow> string \<Rightarrow> (bool \<times> nat \<times> string) option" where
  \<comment> \<open>The input of a numeric directive with an optional maximum field width: the result
      is (a minus sign was read, the value of the digits, the rest of the input).\<close>
  "scan_number width s =
     (let s1 = dropWhile isspace s;
          w = (case width of None \<Rightarrow> length s1 | Some n \<Rightarrow> n);
          signed = (s1 \<noteq> [] \<and> 0 < w \<and> (hd s1 = CHR ''-'' \<or> hd s1 = CHR ''+''));
          neg = (signed \<and> hd s1 = CHR ''-'');
          s2 = (if signed then tl s1 else s1);
          w2 = (if signed then w - 1 else w);
          ds = takeWhile isdigit (take w2 s2)
      in if ds = [] then None else Some (neg, dec_value ds, drop (length ds) s2))"

definition scan_str :: "nat option \<Rightarrow> string \<Rightarrow> (string \<times> string) option" where
  \<comment> \<open>\<^verbatim>\<open>%s\<close> with an optional maximum field width.\<close>
  "scan_str width s =
     (let s1 = dropWhile isspace s;
          tok = takeWhile (\<lambda>c. \<not> isspace c) s1;
          tok1 = (case width of None \<Rightarrow> tok | Some n \<Rightarrow> take n tok)
      in if tok1 = [] then None else Some (tok1, drop (length tok1) s1))"

definition scan_lit :: "string \<Rightarrow> string \<Rightarrow> string option" where
  \<comment> \<open>Ordinary characters of a format: they must be next in the input.\<close>
  "scan_lit lit s = (if take (length lit) s = lit then Some (drop (length lit) s) else None)"

definition hex_char :: "nat \<Rightarrow> char" where
  "hex_char d = ''0123456789abcdef'' ! d"

fun hex_digits :: "nat \<Rightarrow> string" where
  "hex_digits n =
     (if n < 16 then [hex_char n] else hex_digits (n div 16) @ [hex_char (n mod 16)])"

declare hex_digits.simps [simp del]

fun dec_digits :: "nat \<Rightarrow> string" where
  "dec_digits n =
     (if n < 10 then [hex_char n] else dec_digits (n div 10) @ [hex_char (n mod 10)])"

declare dec_digits.simps [simp del]

definition printf_x :: "int \<Rightarrow> string" where
  \<comment> \<open>\<^verbatim>\<open>%x\<close> of an \<^verbatim>\<open>int\<close> argument: it is read as \<^verbatim>\<open>unsigned int\<close>.\<close>
  "printf_x i = hex_digits (nat (u32 i))"

definition printf_d :: "int \<Rightarrow> string" where
  "printf_d i = (if i < 0 then CHR ''-'' # dec_digits (nat (- i)) else dec_digits (nat i))"

definition line_end :: "bool \<Rightarrow> string" where
  \<comment> \<open>\<^verbatim>\<open>cr ? "\r\n" : "\n"\<close>\<close>
  "line_end cr = (if cr then [CR, LF] else [LF])"

definition bsc_mgcp_parse_response :: "string \<Rightarrow> (int \<times> string) option" where
  \<comment> \<open>\<^verbatim>\<open>sscanf(str, "%3d %59s\n", code, transaction) != 2\<close>: \<open>None\<close> is the non-zero
      return, otherwise the code and the transaction id that were stored.\<close>
  "bsc_mgcp_parse_response str =
     (case scan_number (Some 3) str of
        None \<Rightarrow> None
      | Some (neg, v, rest) \<Rightarrow>
          (case scan_str (Some 59) rest of
             None \<Rightarrow> None
           | Some (transaction, _) \<Rightarrow>
               Some (if neg then - int v else int v, transaction)))"

text \<open>
  Modelled from the spec: \<^verbatim>\<open>CI_UNUSED\<close> is a macro of the header
  \<^verbatim>\<open>openbsc/mgcp_internal.h\<close>, which is not among the sources; the spec calls it the absent
  value of a connection identifier.  It is taken to be 0, the value of a zeroed endpoint.
\<close>

definition CI_UNUSED :: "32 word" where
  "CI_UNUSED = 0"

definition strstr :: "string \<Rightarrow> string \<Rightarrow> string option" where
  \<comment> \<open>The suffix of the haystack that starts at the first occurrence of the needle.\<close>
  "strstr hay needle =
     find (\<lambda>suffix. take (length needle) suffix = needle)
       (map (\<lambda>i. drop i hay) [0..<Suc (length hay)])"

definition bsc_mgcp_extract_ci :: "string \<Rightarrow> fault + 32 word" where
  \<comment> \<open>\<^verbatim>\<open>%u\<close> stores an \<^verbatim>\<open>unsigned int\<close>; a minus sign negates modulo \<open>2 ^ 32\<close>.  A value
      that an \<^verbatim>\<open>unsigned int\<close> cannot hold has no defined result in C.\<close>
  "bsc_mgcp_extract_ci str =
     (case strstr str ''I: '' of
        None \<Rightarrow> Inr CI_UNUSED
      | Some res \<Rightarrow>
          (case scan_lit ''I:'' res of
             None \<Rightarrow> Inr CI_UNUSED
           | Some r1 \<Rightarrow>
               (case scan_number None (dropWhile isspace r1) of
                  None \<Rightarrow> Inr CI_UNUSED
                | Some (neg, v, _) \<Rightarrow>
                    if 2 ^ 32 \<le> v then Inl ScanOverflow
                    else Inr (if neg then - of_nat v else of_nat v))))"

section \<open>The MGCP rewriter\<close>

text \<open>
  The message buffer that \<^verbatim>\<open>msgb_alloc_headroom(4096, 128, ...)\<close> returns: 4096 zeroed
  bytes of which 128 are headroom, so 3968 bytes follow \<^verbatim>\<open>data\<close>.  \<open>msg_data\<close> holds
  these bytes, \<open>msg_len\<close> is the offset of \<^verbatim>\<open>tail\<close> from \<^verbatim>\<open>data\<close> and \<open>msg_l3h\<close> the
  offset of \<^verbatim>\<open>l3h\<close>.  \<^verbatim>\<open>msgb_put\<close> belongs to libosmocore: it returns the old tail and
  aborts when the tailroom is too small.
\<close>

record msgb =
  msg_data :: string
  msg_len :: nat
  msg_l3h :: nat

definition msgb_alloc_rewritten :: msgb where
  "msgb_alloc_rewritten = \<lparr>msg_data = replicate (4096 - 128) NUL, msg_len = 0, msg_l3h = 0\<rparr>"

definition write_at :: "nat \<Rightarrow> string \<Rightarrow> string \<Rightarrow> string" where
  \<comment> \<open>\<^verbatim>\<open>memcpy\<close> of \<open>bytes\<close> to offset \<open>pos\<close> of a buffer that has room for them.\<close>
  "write_at pos bytes buf = take pos buf @ bytes @ drop (pos + length bytes) buf"

definition put_bytes :: "msgb \<Rightarrow> string \<Rightarrow> fault + msgb" where
  \<comment> \<open>\<^verbatim>\<open>output->l3h = msgb_put(output, n); memcpy(output->l3h, bytes, n);\<close>\<close>
  "put_bytes m bytes =
     (if length (msg_data m) < msg_len m + length bytes then Inl MsgbAbort
      else Inr (m\<lparr>msg_data := write_at (msg_len m) bytes (msg_data m),
                  msg_len := msg_len m + length bytes,
                  msg_l3h := msg_len m\<rparr>))"

definition patch_mgcp :: "msgb \<Rightarrow> string \<Rightarrow> string \<Rightarrow> int \<Rightarrow> bool \<Rightarrow> fault + msgb" where
  \<comment> \<open>\<^verbatim>\<open>sscanf(tok, "%*s %s", buf)\<close> fills \<^verbatim>\<open>char buf[40]\<close> without a width; \<^verbatim>\<open>sprintf\<close>
      writes the line and its NUL at \<^verbatim>\<open>l3h\<close>, which is where the line before starts once
      something was put; \<^verbatim>\<open>msgb_put\<close> then moves the tail by the length of the line.\<close>
  "patch_mgcp m op tok endp cr =
     (case scan_str None tok of
        None \<Rightarrow> Inr m
      | Some (_, rest) \<Rightarrow>
          (case scan_str None rest of
             None \<Rightarrow> Inr m
           | Some (buf, _) \<Rightarrow>
               if 40 \<le> length buf then Inl MemoryFault
               else
                 (let line = op @ '' '' @ buf @ '' '' @ printf_x endp @ ''@mgw MGCP 1.0''
                              @ line_end cr;
                      slen = length line
                  in if length (msg_data m) < msg_l3h m + slen + 1 then Inl MemoryFault
                     else if length (msg_data m) < msg_len m + slen then Inl MsgbAbort
                     else Inr (m\<lparr>msg_data := write_at (msg_l3h m) (line @ [NUL]) (msg_data m),
                                 msg_len := msg_len m + slen,
                                 msg_l3h := msg_len m\<rparr>))))"

text \<open>The variables of \<^verbatim>\<open>bsc_mgcp_rewrite\<close> that live across the lines of the input.\<close>

record rewrite_state =
  out_msg :: msgb
  found_fmtp :: bool
  payload :: int
  cr :: bool

definition scan_audio :: "string \<Rightarrow> (fault + int) option" where
  \<comment> \<open>\<^verbatim>\<open>sscanf(token, "m=audio %*d RTP/AVP %d", &payload) != 1\<close>: \<open>None\<close> when the
      payload type is not converted; a value outside \<^verbatim>\<open>int\<close> has no defined result.\<close>
  "scan_audio token =
     (case scan_lit ''m=audio'' token of
        None \<Rightarrow> None
      | Some r1 \<Rightarrow>
          (case scan_number None (dropWhile isspace r1) of
             None \<Rightarrow> None
           | Some (_, _, r2) \<Rightarrow>
               (case scan_lit ''RTP/AVP'' (dropWhile isspace r2) of
                  None \<Rightarrow> None
                | Some r3 \<Rightarrow>
                    (case scan_number None (dropWhile isspace r3) of
                       None \<Rightarrow> None
                     | Some (neg, v, _) \<Rightarrow>
                         (let i = (if neg then - int v else int v)
                          in if i < - (2 ^ 31) \<or> 2 ^ 31 \<le> i then Some (Inl ScanOverflow)
                             else Some (Inr i))))))"

definition set_out :: "rewrite_state \<Rightarrow> fault + msgb \<Rightarrow> fault + rewrite_state option" where
  \<comment> \<open>The state after a line whose bytes went to the message, unless putting them failed.\<close>
  "set_out s r = (case r of Inl f \<Rightarrow> Inl f | Inr m \<Rightarrow> Inr (Some (s\<lparr>out_msg := m\<rparr>)))"

definition rewrite_line ::
  "int \<Rightarrow> string \<Rightarrow> int \<Rightarrow> string \<Rightarrow> rewrite_state \<Rightarrow> fault + rewrite_state option" where
  \<comment> \<open>The body of the loop for one token; \<open>Inr None\<close> is \<^verbatim>\<open>return NULL\<close>.\<close>
  "rewrite_line endpoint ip port token s =
     (let len = length token;
          cr1 = (0 < len \<and> token ! (len - 1) = CR);
          s1 = s\<lparr>cr := cr1\<rparr>
      in if take 5 token = ''CRCX ''
         then set_out s1 (patch_mgcp (out_msg s) ''CRCX'' token endpoint cr1)
         else if take 5 token = ''DLCX ''
         then set_out s1 (patch_mgcp (out_msg s) ''DLCX'' token endpoint cr1)
         else if take 5 token = ''MDCX ''
         then set_out s1 (patch_mgcp (out_msg s) ''MDCX'' token endpoint cr1)
         else if take 9 token = ''c=IN IP4 '' then
           (case put_bytes (out_msg s) ''c=IN IP4 '' of
              Inl f \<Rightarrow> Inl f
            | Inr m1 \<Rightarrow>
                (case put_bytes m1 ip of
                   Inl f \<Rightarrow> Inl f
                 | Inr m2 \<Rightarrow> set_out s1 (put_bytes m2 (line_end cr1))))
         else if take 8 token = ''m=audio '' then
           (case scan_audio token of
              None \<Rightarrow> Inr None
            | Some (Inl f) \<Rightarrow> Inl f
            | Some (Inr pt) \<Rightarrow>
                set_out (s1\<lparr>payload := pt\<rparr>)
                  (put_bytes (out_msg s)
                     (take 126 (''m=audio '' @ printf_d port @ '' RTP/AVP '' @ printf_d pt
                                @ line_end cr1))))
         else if take 7 token = ''a=fmtp:'' then
           set_out (s1\<lparr>found_fmtp := True\<rparr>) (put_bytes (out_msg s) (token @ [LF]))
         else set_out s1 (put_bytes (out_msg s) (token @ [LF])))"

definition strsep_lf :: "string \<Rightarrow> string \<times> string option" where
  \<comment> \<open>\<^verbatim>\<open>token = strsep(&running, "\n")\<close> on a non-null \<^verbatim>\<open>running\<close>: the token and the
      new value of \<^verbatim>\<open>running\<close>, \<open>None\<close> for the null pointer.\<close>
  "strsep_lf running =
     (if LF \<in> set running
      then (takeWhile (\<lambda>c. c \<noteq> LF) running, Some (tl (dropWhile (\<lambda>c. c \<noteq> LF) running)))
      else (running, None))"

function rewrite_loop ::
  "int \<Rightarrow> string \<Rightarrow> int \<Rightarrow> string \<Rightarrow> rewrite_state \<Rightarrow> fault + rewrite_state option" where
  "rewrite_loop endpoint ip port running s =
     (case strsep_lf running of
        (token, None) \<Rightarrow> Inr (Some s)
      | (token, Some rest) \<Rightarrow>
          (case rewrite_line endpoint ip port token s of
             Inl f \<Rightarrow> Inl f
           | Inr None \<Rightarrow> Inr None
           | Inr (Some s1) \<Rightarrow> rewrite_loop endpoint ip port rest s1))"
  by pat_completeness auto
termination
proof (relation "measure (\<lambda>(endpoint, ip, port, running, s). length running)")
  show "wf (measure (\<lambda>(endpoint, ip, port, running, s). length running))" by simp
next
  fix endpoint :: int and ip :: string and port :: int and running :: string
    and s s1 :: rewrite_state and x token rest_opt rest y
  assume "(token, rest_opt) = strsep_lf running" and "rest_opt = Some rest"
  then have "LF \<in> set running" and "rest = tl (dropWhile (\<lambda>c. c \<noteq> LF) running)"
    by (auto simp: strsep_lf_def split: if_splits)
  moreover from \<open>LF \<in> set running\<close> have "dropWhile (\<lambda>c. c \<noteq> LF) running \<noteq> []"
    by (simp)
  ultimately have "length rest < length running"
    using length_dropWhile_le [of "\<lambda>c. c \<noteq> LF" running]
    by (cases "dropWhile (\<lambda>c. c \<noteq> LF) running") auto
  then show "((endpoint, ip, port, rest, s1), (endpoint, ip, port, running, s))
      \<in> measure (\<lambda>(endpoint, ip, port, running, s). length running)"
    by simp
qed

declare rewrite_loop.simps [simp del]

definition append_fmtp :: "rewrite_state \<Rightarrow> string" where
  \<comment> \<open>What lines 656 to 662 put after the loop.\<close>
  "append_fmtp s =
     (if \<not> found_fmtp s \<and> payload s \<noteq> -1
      then take 126 (''a=fmtp:'' @ printf_d (payload s) @ '' mode-set=2'' @ line_end (cr s))
      else [])"

definition bsc_mgcp_rewrite ::
  "string \<Rightarrow> int \<Rightarrow> int \<Rightarrow> string \<Rightarrow> int \<Rightarrow> fault + string option" where
  \<comment> \<open>\<open>input\<close> is the C string at \<^verbatim>\<open>input\<close>; the result is the data of the new message,
      \<open>Inr None\<close> for \<^verbatim>\<open>NULL\<close>.\<close>
  "bsc_mgcp_rewrite input len endpoint ip port =
     (if 4096 - 256 < len then Inr None
      else
        (case rewrite_loop endpoint ip port input
                \<lparr>out_msg = msgb_alloc_rewritten, found_fmtp = False, payload = -1, cr = True\<rparr> of
           Inl f \<Rightarrow> Inl f
         | Inr None \<Rightarrow> Inr None
         | Inr (Some s) \<Rightarrow>
             (if \<not> found_fmtp s \<and> payload s \<noteq> -1
              then (case put_bytes (out_msg s) (append_fmtp s) of
                      Inl f \<Rightarrow> Inl f
                    | Inr m \<Rightarrow> Inr (Some (take (msg_len m) (msg_data m))))
              else Inr (Some (take (msg_len (out_msg s)) (msg_data (out_msg s)))))))"

subsection \<open>The lines the rewriter works on\<close>

text \<open>
  Observations on an input of the rewriter, for stating what it does: \<open>lf_tokens\<close> lists
  the tokens that the loop of \<^verbatim>\<open>bsc_mgcp_rewrite\<close> hands to its body, found with the
  same \<^verbatim>\<open>strsep\<close> and the same loop condition; \<open>last_cr\<close> is the line ending seen on
  the last of them (\<^verbatim>\<open>cr\<close> starts as 1); \<open>last_payload\<close> is the payload type that the
  last \<^verbatim>\<open>m=audio\<close> line left in \<^verbatim>\<open>payload\<close>.
\<close>

function lf_tokens :: "string \<Rightarrow> string list" where
  "lf_tokens running =
     (case strsep_lf running of
        (token, None) \<Rightarrow> []
      | (token, Some rest) \<Rightarrow> token # lf_tokens rest)"
  by pat_completeness auto
termination
proof (relation "measure length")
  show "wf (measure length)" by simp
next
  fix running :: string and x token rest_opt rest
  assume "(token, rest_opt) = strsep_lf running" and "rest_opt = Some rest"
  then have "LF \<in> set running" and "rest = tl (dropWhile (\<lambda>c. c \<noteq> LF) running)"
    by (auto simp: strsep_lf_def split: if_splits)
  moreover from \<open>LF \<in> set running\<close> have "dropWhile (\<lambda>c. c \<noteq> LF) running \<noteq> []"
    by simp
  ultimately have "length rest < length running"
    using length_dropWhile_le [of "\<lambda>c. c \<noteq> LF" running]
    by (cases "dropWhile (\<lambda>c. c \<noteq> LF) running") auto
  then show "(rest, running) \<in> measure length" by simp
qed

declare lf_tokens.simps [simp del]

definition ends_cr :: "string \<Rightarrow> bool" where
  "ends_cr token = (token \<noteq> [] \<and> last token = CR)"

definition last_cr :: "string list \<Rightarrow> bool" where
  "last_cr tokens = (if tokens = [] then True else ends_cr (last tokens))"

fun last_payload :: "int \<Rightarrow> string list \<Rightarrow> int" where
  "last_payload pt [] = pt"
| "last_payload pt (t # ts) =
     last_payload (if take 8 t = ''m=audio ''
                   then (case scan_audio t of Some (Inr v) \<Rightarrow> v | _ \<Rightarrow> pt)
                   else pt) ts"

fun spec_fmtp_wanted :: "string list \<Rightarrow> bool" where
  \<comment> \<open>The condition of section 4.3 of the spec on the lines of an input: an
      \<^verbatim>\<open>m=audio\<close> line was seen and no \<^verbatim>\<open>a=fmtp:\<close> line followed it.\<close>
  "spec_fmtp_wanted [] = False"
| "spec_fmtp_wanted (t # ts) =
     ((take 8 t = ''m=audio '' \<and> \<not> list_ex (\<lambda>u. take 7 u = ''a=fmtp:'') ts)
      \<or> spec_fmtp_wanted ts)"

section \<open>The NAT: trunk, pending transactions and sessions\<close>

text \<open>
  Modelled from the spec: the values of \<^verbatim>\<open>MGCP_ENDP_CRCX\<close>, \<^verbatim>\<open>MGCP_ENDP_DLCX\<close> and
  \<^verbatim>\<open>MGCP_ENDP_MDCX\<close> and the three policy results are macros of the header
  \<^verbatim>\<open>openbsc/mgcp.h\<close>, which is not among the sources.  The spec (section 3) has the state
  of a slot in \<open>{none, CRCX, MDCX, DLCX}\<close> with none the value 0 of a zeroed slot; the
  theorems use of the three numbers only that they differ from each other and from 0.
\<close>

definition MGCP_ENDP_CRCX :: int where "MGCP_ENDP_CRCX = 1"


text \<open>
  \<^verbatim>\<open>struct bsc_endpoint\<close>, the pending-transaction slot of an endpoint: \<open>bsc\<close> is the
  back-reference, \<open>None\<close> for the null pointer.
\<close>

record bsc_endpoint =
  transaction_id :: "string option"
  transaction_state :: int
  bsc :: "nat option"

text \<open>The fields of \<^verbatim>\<open>struct mgcp_endpoint\<close> that this file reads or writes.\<close>

record mgcp_endpoint =
  ci :: "32 word"
  bts_end_local_port :: int
  bts_end_addr :: "32 word"
  net_end_local_port :: int

text \<open>
  \<^verbatim>\<open>struct bsc_nat\<close> with its MGCP configuration.  \<open>number_endpoints\<close> and \<open>endpoints\<close>
  are \<^verbatim>\<open>mgcp_cfg->trunk.number_endpoints\<close> and \<^verbatim>\<open>mgcp_cfg->trunk.endpoints\<close>.  The list
  \<open>sccp_list\<close> is the linked list \<^verbatim>\<open>nat->sccp_connections\<close>, in list order, of addresses
  in the store \<open>sccp_heap\<close>; BSC connections live in the store \<open>bsc_heap\<close>.  Two sessions
  of one BSC share its status array through the store.  \<open>mgcp_msg\<close> holds the
  \<open>mgcp_length\<close> bytes of the message being handled.  \<open>call_agent_out\<close> collects what is
  handed to \<^verbatim>\<open>mgcp_queue_for_call_agent\<close>, oldest first; statistics counters and logging
  are left out.
\<close>

record bsc_nat =
  number_endpoints :: int
  endpoints :: "mgcp_endpoint list"
  bsc_endpoints :: "bsc_endpoint list"
  source_addr :: string
  mgcp_msg :: string
  mgcp_length :: int
  sccp_list :: "nat list"
  sccp_heap :: "nat \<Rightarrow> sccp_connections"
  bsc_heap :: "nat \<Rightarrow> bsc_connection"
  call_agent_out :: "string list"

definition in_range :: "int \<Rightarrow> 'a list \<Rightarrow> bool" where
  \<comment> \<open>The index is inside the array.\<close>
  "in_range i xs = (0 \<le> i \<and> i < int (length xs))"

definition bsc_mgcp_free_endpoint :: "bsc_nat \<Rightarrow> int \<Rightarrow> fault + bsc_nat" where
  "bsc_mgcp_free_endpoint nt i =
     (if \<not> in_range i (bsc_endpoints nt) then Inl MemoryFault
      else Inr (nt\<lparr>bsc_endpoints := (bsc_endpoints nt)[nat i :=
                  (bsc_endpoints nt ! nat i)
                    \<lparr>transaction_id := None, transaction_state := 0, bsc := None\<rparr>]\<rparr>))"

definition bsc_mgcp_send_dlcx :: "bsc_connection \<Rightarrow> int \<Rightarrow> bsc_connection" where
  "bsc_mgcp_send_dlcx b endpoint =
     b\<lparr>bsc_out := bsc_out b @
         [''DLCX 26 '' @ printf_x endpoint @ ''@mgw MGCP 1.0'' @ [CR, LF]
          @ ''Z: noanswer'' @ [CR, LF]]\<rparr>"


definition bsc_mgcp_init :: "sccp_connections \<Rightarrow> sccp_connections" where
  "bsc_mgcp_init con = con\<lparr>msc_endp := -1, bsc_endp := -1\<rparr>"

definition bsc_mgcp_dlcx :: "bsc_nat \<Rightarrow> nat \<Rightarrow> fault + bsc_nat" where
  \<comment> \<open>\<open>c\<close> is the address of the session \<^verbatim>\<open>con\<close>.\<close>
  "bsc_mgcp_dlcx nt c =
     (let con = sccp_heap nt c;
          b = bsc_heap nt (con_bsc con);
          reset = (\<lambda>n1. n1\<lparr>sccp_heap := (sccp_heap n1)(c := bsc_mgcp_init (sccp_heap n1 c))\<rparr>)
      in if bsc_endp con \<noteq> -1 \<and> endpoint_status b \<noteq> None then
           (let st = the (endpoint_status b)
            in if \<not> in_range (bsc_endp con) st then Inl MemoryFault
               else
                 (let b1 = b\<lparr>endpoint_status := Some (st[nat (bsc_endp con) := 0])\<rparr>;
                      b2 = bsc_mgcp_send_dlcx b1 (bsc_endp con);
                      n1 = nt\<lparr>bsc_heap := (bsc_heap nt)(con_bsc con := b2)\<rparr>
                  in case bsc_mgcp_free_endpoint n1 (msc_endp con) of
                       Inl f \<Rightarrow> Inl f
                     | Inr n2 \<Rightarrow> Inr (reset n2)))
         else Inr (reset nt))"

fun find_con_loop ::
  "(nat \<Rightarrow> sccp_connections) \<Rightarrow> int \<Rightarrow> nat list \<Rightarrow> nat option \<Rightarrow> nat option" where
  "find_con_loop h endpoint [] con = con"
| "find_con_loop h endpoint (sccp # rest) con =
     (if msc_endp (h sccp) = -1 then find_con_loop h endpoint rest con
      else if msc_endp (h sccp) \<noteq> endpoint then find_con_loop h endpoint rest con
      else find_con_loop h endpoint rest (Some sccp))"

definition bsc_mgcp_find_con :: "bsc_nat \<Rightarrow> int \<Rightarrow> nat option" where
  "bsc_mgcp_find_con nt endpoint = find_con_loop (sccp_heap nt) endpoint (sccp_list nt) None"

subsection \<open>The BSSMAP assignment patcher\<close>

text \<open>
  \<^verbatim>\<open>tlv_parse\<close> and the table \<^verbatim>\<open>gsm0808_att_tlvdef\<close> belong to libosmocore.  What they
  find is an argument of the model: \<open>cic_val\<close> is the offset from \<^verbatim>\<open>l3h\<close> of the value of
  the CIRCUIT_IDENTITY_CODE element, \<open>None\<close> when \<^verbatim>\<open>TLVP_PRESENT\<close> is false.  \<open>l3\<close> is the
  message from \<^verbatim>\<open>l3h\<close> to its tail, \<open>None\<close> when \<^verbatim>\<open>l3h\<close> is null.  The result is the
  return value, the NAT and the message.
\<close>

fun stale_loop :: "bsc_nat \<Rightarrow> int \<Rightarrow> nat list \<Rightarrow> fault + bsc_nat" where
  "stale_loop nt endp [] = Inr nt"
| "stale_loop nt endp (mcon # rest) =
     (if u32 (msc_endp (sccp_heap nt mcon)) = endp
      then (case bsc_mgcp_dlcx nt mcon of
              Inl f \<Rightarrow> Inl f
            | Inr n1 \<Rightarrow> stale_loop n1 endp rest)
      else stale_loop nt endp rest)"

definition ntohs_at :: "u8 list \<Rightarrow> nat \<Rightarrow> u16" where
  \<comment> \<open>\<^verbatim>\<open>ntohs(*(uint16_t *) p)\<close>: the two bytes at \<open>p\<close>, most significant first.\<close>
  "ntohs_at bytes p = push_bit 8 (ucast (bytes ! p)) OR ucast (bytes ! (p + 1))"

definition htons_bytes :: "u16 \<Rightarrow> u8 list" where
  \<comment> \<open>The two bytes of \<^verbatim>\<open>htons(v)\<close> in memory order.\<close>
  "htons_bytes v = [ucast (drop_bit 8 v), ucast v]"

definition assign_session :: "bsc_nat \<Rightarrow> nat \<Rightarrow> int \<Rightarrow> fault + (int \<times> bsc_nat)" where
  \<comment> \<open>Lines 206 to 222 of \<^verbatim>\<open>bsc_mgcp_assign_patch\<close>: stale sessions are torn down, the
      session \<open>c\<close> takes the endpoint of the MSC and a free endpoint of its BSC.  The
      result is 0 where the source goes on to patch, -1 where it returns -1.\<close>
  "assign_session nt c endp =
     (case stale_loop nt endp (sccp_list nt) of
        Inl f \<Rightarrow> Inl f
      | Inr n1 \<Rightarrow>
          (let con1 = (sccp_heap n1 c)\<lparr>msc_endp := endp\<rparr>;
               n2 = n1\<lparr>sccp_heap := (sccp_heap n1)(c := con1)\<rparr>;
               bp = con_bsc con1
           in case bsc_init_endps_if_needed (bsc_heap n2 bp) of (rc, b1) \<Rightarrow>
                (let n3 = n2\<lparr>bsc_heap := (bsc_heap n2)(bp := b1)\<rparr>
                 in if rc \<noteq> 0 then Inr (-1, n3)
                    else
                      (case bsc_assign_endpoint b1 con1 of
                         Inl f \<Rightarrow> Inl f
                       | Inr (rc2, b2, con2) \<Rightarrow>
                           Inr (if rc2 \<noteq> 0 then -1 else 0,
                                n3\<lparr>bsc_heap := (bsc_heap n3)(bp := b2),
                                   sccp_heap := (sccp_heap n3)(c := con2)\<rparr>)))))"

definition patch_endp :: "u8 list \<Rightarrow> nat \<Rightarrow> int" where
  \<comment> \<open>Lines 192 to 197: the endpoint of the MSC that the code at offset \<open>p\<close> names,
      as the \<^verbatim>\<open>unsigned int endp\<close>.\<close>
  "patch_endp bytes p =
     (case cic_to_timeslot (ntohs_at bytes p) of (multiplex, timeslot) \<Rightarrow>
        u32 (mgcp_timeslot_to_endpoint multiplex timeslot))"

definition bsc_mgcp_assign_patch ::
  "bsc_nat \<Rightarrow> nat \<Rightarrow> u8 list option \<Rightarrow> nat option
     \<Rightarrow> fault + (int \<times> bsc_nat \<times> u8 list option)" where
  "bsc_mgcp_assign_patch nt c l3 cic_val =
     (case l3 of
        None \<Rightarrow> Inr (-1, nt, l3)
      | Some bytes \<Rightarrow>
          if length bytes < 3 then Inr (-1, nt, l3)
          else
            (case cic_val of
               None \<Rightarrow> Inr (-1, nt, l3)
             | Some p \<Rightarrow>
                 if length bytes < p + 2 then Inl MemoryFault
                 else
                   (let endp = patch_endp bytes p
                    in if u32 (number_endpoints nt) \<le> endp then Inr (-1, nt, l3)
                       else
                         (case assign_session nt c endp of
                            Inl f \<Rightarrow> Inl f
                          | Inr (rc, n1) \<Rightarrow>
                              if rc \<noteq> 0 then Inr (-1, n1, l3)
                              else Inr (0, n1,
                                     Some (take p bytes
                                           @ htons_bytes (create_cic (bsc_endp (sccp_heap n1 c)))
                                           @ drop (p + 2) bytes))))))"

subsection \<open>The policy callback\<close>




subsection \<open>The reply forwarder\<close>

text \<open>
  \<^verbatim>\<open>mgcp_free_endp\<close> belongs to the MGCP library of the repository, which is not among
  the sources: what it does to an endpoint is the argument \<open>free_endp\<close> of the functions
  that call it.
\<close>

definition free_chan_downstream ::
  "(mgcp_endpoint \<Rightarrow> mgcp_endpoint) \<Rightarrow> bsc_nat \<Rightarrow> nat \<Rightarrow> nat \<Rightarrow> fault + bsc_nat" where
  \<comment> \<open>\<open>i\<close> is \<^verbatim>\<open>ENDPOINT_NUMBER(endp)\<close>, the index of \<^verbatim>\<open>endp\<close> and of \<^verbatim>\<open>bsc_endp\<close>;
      \<open>bp\<close> is the address of the BSC connection.\<close>
  "free_chan_downstream free_endp nt i bp =
     (let n1 =
        (if transaction_state (bsc_endpoints nt ! i) = MGCP_ENDP_CRCX then
           (case bsc_mgcp_find_con nt (int i) of
              None \<Rightarrow> nt
            | Some con \<Rightarrow>
                if con_bsc (sccp_heap nt con) = bp
                then nt\<lparr>bsc_heap := (bsc_heap nt)
                          (bp := bsc_mgcp_send_dlcx (bsc_heap nt bp)
                                   (bsc_endp (sccp_heap nt con)))\<rparr>
                else nt)
         else nt)
      in case bsc_mgcp_free_endpoint n1 (int i) of
           Inl f \<Rightarrow> Inl f
         | Inr n2 \<Rightarrow>
             Inr (n2\<lparr>endpoints := (endpoints n2)[i := free_endp (endpoints n2 ! i)]\<rparr>))"

fun forward_find :: "bsc_endpoint list \<Rightarrow> nat \<Rightarrow> string \<Rightarrow> nat list \<Rightarrow> fault + nat option" where
  \<comment> \<open>The loop of lines 477 to 489 over the indices it is given: the first slot of this
      BSC that waits for the transaction.\<close>
  "forward_find slots bp transaction [] = Inr None"
| "forward_find slots bp transaction (i # rest) =
     (if length slots \<le> i then Inl MemoryFault
      else if bsc (slots ! i) \<noteq> Some bp then forward_find slots bp transaction rest
      else if transaction_id (slots ! i) = None then forward_find slots bp transaction rest
      else if transaction_id (slots ! i) \<noteq> Some transaction
      then forward_find slots bp transaction rest
      else Inr (Some i))"

definition forward_matched ::
  "(mgcp_endpoint \<Rightarrow> mgcp_endpoint) \<Rightarrow> bsc_nat \<Rightarrow> nat \<Rightarrow> string \<Rightarrow> nat
     \<Rightarrow> fault + bsc_nat" where
  \<comment> \<open>Lines 497 to 521, with \<open>i\<close> the index of the slot that the loop found.\<close>
  "forward_matched free_endp nt bp msg i =
     (if length (endpoints nt) \<le> i then Inl MemoryFault
      else
        (case bsc_mgcp_extract_ci (c_str msg) of
           Inl f \<Rightarrow> Inl f
         | Inr new_ci \<Rightarrow>
             (let n1 = nt\<lparr>endpoints := (endpoints nt)[i := (endpoints nt ! i)\<lparr>ci := new_ci\<rparr>]\<rparr>
              in if new_ci = CI_UNUSED then free_chan_downstream free_endp n1 i bp
                 else
                   (let n2 = n1\<lparr>bsc_endpoints := (bsc_endpoints n1)[i :=
                                   (bsc_endpoints n1 ! i)
                                     \<lparr>transaction_id := None, transaction_state := 0\<rparr>]\<rparr>
                    in case bsc_mgcp_rewrite (c_str msg) (int (length msg)) (-1)
                              (source_addr n2) (net_end_local_port (endpoints n2 ! i)) of
                         Inl f \<Rightarrow> Inl f
                       | Inr None \<Rightarrow> Inr n2
                       | Inr (Some out) \<Rightarrow>
                           Inr (n2\<lparr>call_agent_out := call_agent_out n2 @ [out]\<rparr>)))))"

definition bsc_mgcp_forward ::
  "(mgcp_endpoint \<Rightarrow> mgcp_endpoint) \<Rightarrow> bsc_nat \<Rightarrow> nat \<Rightarrow> string \<Rightarrow> fault + bsc_nat" where
  \<comment> \<open>\<open>msg\<close> holds the \<^verbatim>\<open>msgb_l2len(msg)\<close> bytes at \<^verbatim>\<open>msg->l2h\<close>; the source
      terminates them with a NUL and reads them as a C string.\<close>
  "bsc_mgcp_forward free_endp nt bp msg =
     (if 2000 < length msg then Inr nt
      else
        (case bsc_mgcp_parse_response (c_str msg) of
           None \<Rightarrow> Inr nt
         | Some (code, transaction) \<Rightarrow>
             (case forward_find (bsc_endpoints nt) bp transaction
                     [1..<nat (number_endpoints nt)] of
                Inl f \<Rightarrow> Inl f
              | Inr None \<Rightarrow> Inr nt
              | Inr (Some i) \<Rightarrow> forward_matched free_endp nt bp msg i)))"

subsection \<open>Bulk release\<close>





subsection \<open>Example NAT states\<close>

text \<open>
  A NAT with a trunk of 64 endpoints, three sessions of BSC 0 that are not bound yet, and
  BSC connections configured with two endpoints that have not allocated; then the same
  NAT after the assignment of MSC endpoint 33 (circuit identity code 0x0021) to
  session 0, which gets endpoint 1 of BSC 0.  \<open>ex_assignment\<close> is a layer-3 message whose
  CIRCUIT_IDENTITY_CODE value sits at offset 4.
\<close>

definition empty_slot :: bsc_endpoint where
  "empty_slot = \<lparr>transaction_id = None, transaction_state = 0, bsc = None\<rparr>"

definition ex_endp :: mgcp_endpoint where
  "ex_endp = \<lparr>ci = 0, bts_end_local_port = 4000, bts_end_addr = 0, net_end_local_port = 5000\<rparr>"

definition ex_crcx :: string where
  "ex_crcx = ''CRCX 1234 21@mgw MGCP 1.0'' @ [CR, LF, CR, LF] @ ''c=IN IP4 1.1.1.1'' @ [CR, LF]
             @ ''m=audio 4000 RTP/AVP 8'' @ [CR, LF]"

definition ex_nat :: bsc_nat where
  "ex_nat = \<lparr>number_endpoints = 64, endpoints = replicate 64 ex_endp,
     bsc_endpoints = replicate 65 empty_slot, source_addr = ''10.0.0.1'',
     mgcp_msg = ex_crcx, mgcp_length = int (length ex_crcx), sccp_list = [0, 1, 2],
     sccp_heap = (\<lambda>_. ex_con), bsc_heap = (\<lambda>_. ex_bsc 2), call_agent_out = []\<rparr>"

definition ex_bsc_used :: bsc_connection where
  "ex_bsc_used = \<lparr>cfg_max_endpoints = Some 2, number_multiplexes = 1, max_endpoints = 2,
      last_endpoint = 1, endpoint_status = Some ((replicate 33 0)[1 := 1]),
      peer_addr = Some 0x0A000002, bsc_out = []\<rparr>"

definition ex_nat_assigned :: bsc_nat where
  "ex_nat_assigned = ex_nat
     \<lparr>sccp_heap := (\<lambda>_. ex_con)(0 := \<lparr>con_bsc = 0, msc_endp = 33, bsc_endp = 1\<rparr>),
      bsc_heap := (\<lambda>_. ex_bsc 2)(0 := ex_bsc_used)\<rparr>"

definition ex_assignment :: "u8 \<Rightarrow> u8 list" where
  "ex_assignment cic_low = [0, 1, 0, 1, 0, cic_low]"

definition ex_dlcx :: string where
  "ex_dlcx = ''DLCX 26 1@mgw MGCP 1.0'' @ [CR, LF] @ ''Z: noanswer'' @ [CR, LF]"

definition ex_crcx_out :: string where
  \<comment> \<open>\<open>ex_crcx\<close> rewritten for endpoint 1 of the BSC, address 10.0.0.1 and port 4000.\<close>
  "ex_crcx_out = ''CRCX 1234 1@mgw MGCP 1.0'' @ [CR, LF, CR, LF] @ ''c=IN IP4 10.0.0.1'' @ [CR, LF]
             @ ''m=audio 4000 RTP/AVP 8'' @ [CR, LF] @ ''a=fmtp:8 mode-set=2'' @ [CR, LF]"

definition ex_fmtp_first :: string where
  \<comment> \<open>An input whose \<^verbatim>\<open>a=fmtp:\<close> line precedes its \<^verbatim>\<open>m=audio\<close> line.\<close>
  "ex_fmtp_first = ''a=fmtp:8 mode-set=2'' @ [LF] @ ''m=audio 4000 RTP/AVP 8'' @ [LF]"

subsection \<open>The pending-slot invariant\<close>


definition slot_ok :: "bsc_endpoint \<Rightarrow> bool" where
  "slot_ok e = (((transaction_id e \<noteq> None) = (transaction_state e \<noteq> 0))
              \<and> (transaction_id e \<noteq> None \<longrightarrow> bsc e \<noteq> None))"

subsection \<open>Example replies\<close>

text \<open>
  \<open>ex_nat_pending\<close> is \<open>ex_nat_assigned\<close> after the call agent's CRCX 1234 for MSC
  endpoint 33 went to BSC 0, whose address is 10.0.0.2; \<open>ex_nat_replied\<close> is what the reply
  \<open>ex_reply\<close> of the BSC makes of it and \<open>ex_nat_no_ci\<close> what the reply \<open>ex_reply_no_ci\<close>,
  which has no \<^verbatim>\<open>I: \<close> line, makes of it.  \<open>ex_free_endp\<close> stands for \<^verbatim>\<open>mgcp_free_endp\<close>.
\<close>

definition ex_free_endp :: "mgcp_endpoint \<Rightarrow> mgcp_endpoint" where
  "ex_free_endp e = e\<lparr>ci := CI_UNUSED\<rparr>"

definition ex_mdcx :: string where
  "ex_mdcx = ''MDCX 23 1@mgw MGCP 1.0'' @ [CR, LF] @ ''Z: noanswer'' @ [CR, LF, CR, LF]
             @ ''c=IN IP4 10.0.0.1'' @ [CR, LF] @ ''m=audio 4000 RTP/AVP 255'' @ [CR, LF]"

definition ex_nat_pending :: bsc_nat where
  "ex_nat_pending = ex_nat_assigned
     \<lparr>endpoints := (replicate 64 ex_endp)[33 := ex_endp\<lparr>bts_end_addr := 0x0A000002\<rparr>],
      bsc_endpoints := (replicate 65 empty_slot)
        [33 := \<lparr>transaction_id = Some ''1234'', transaction_state = MGCP_ENDP_CRCX,
                  bsc = Some 0\<rparr>],
      bsc_heap := (\<lambda>_. ex_bsc 2)(0 := ex_bsc_used\<lparr>bsc_out := [ex_crcx_out, ex_mdcx]\<rparr>)\<rparr>"

definition ex_reply :: string where
  "ex_reply = ''200 1234 OK'' @ [CR, LF] @ ''I: 57'' @ [CR, LF]"

definition ex_reply_no_ci :: string where
  "ex_reply_no_ci = ''200 1234 OK'' @ [CR, LF]"


definition ex_nat_no_ci :: bsc_nat where
  "ex_nat_no_ci = ex_nat_pending
     \<lparr>endpoints := (replicate 64 ex_endp)[33 := ex_endp\<lparr>bts_end_addr := 0x0A000002\<rparr>],
      bsc_endpoints := (replicate 65 empty_slot)[33 := empty_slot],
      bsc_heap := (\<lambda>_. ex_bsc 2)
        (0 := ex_bsc_used\<lparr>bsc_out := [ex_crcx_out, ex_mdcx, ex_dlcx]\<rparr>)\<rparr>"

subsection \<open>Example: a circuit identity code beyond the trunk\<close>

text \<open>
  \<open>ex_alias_assignment\<close> is a layer-3 message like \<open>ex_assignment\<close> whose
  CIRCUIT_IDENTITY_CODE value is 0x2021: multiplex 257, timeslot 1.  \<open>ex_nat_aliased\<close> is
  \<open>ex_nat_assigned\<close> with session 0 torn down and MSC endpoint 33 in the hands of
  session 1.
\<close>

definition ex_alias_assignment :: "u8 list" where
  "ex_alias_assignment = [0, 1, 0, 1, 0x20, 0x21]"

definition ex_nat_aliased :: bsc_nat where
  "ex_nat_aliased = ex_nat_assigned
     \<lparr>bsc_heap := (\<lambda>_. ex_bsc 2)(0 := ex_bsc_used\<lparr>bsc_out := [ex_dlcx]\<rparr>),
      sccp_heap := (\<lambda>_. ex_con)
        (0 := \<lparr>con_bsc = 0, msc_endp = -1, bsc_endp = -1\<rparr>,
         1 := \<lparr>con_bsc = 0, msc_endp = 33, bsc_endp = 1\<rparr>)\<rparr>"

subsection \<open>Example: a second verb and a retransmission\<close>







section \<open>Proofs: endpoint numbering and circuit identity codes\<close>

lemma and_1f_int: "(t::int) AND 0x1f = t mod 32"
proof -
  have "t AND mask 5 = take_bit 5 t" by (simp add: take_bit_eq_mask)
  then show ?thesis by (simp add: take_bit_eq_mod mask_eq_exp_minus_1)
qed

lemma cic_timeslot_bits: "uint (ucast ((cic::u16) AND 0x1f) :: u8) = uint cic mod 32"
proof -
  have "uint (ucast (cic AND 0x1f) :: u8) = take_bit 8 (uint cic AND 0x1f)"
    by (simp add: unsigned_ucast_eq unsigned_and_eq)
  also have "\<dots> = (uint cic mod 32) mod 256"
    by (simp add: and_1f_int take_bit_eq_mod)
  finally show ?thesis by simp
qed

lemma drop_cleared_low_bits: "drop_bit 5 ((cic::u16) AND NOT 0x1f) = drop_bit 5 cic"
proof -
  have m: "(0x1f::u16) = mask 5" by (simp add: mask_eq_exp_minus_1)
  show ?thesis unfolding m
    by (rule bit_word_eqI) (auto simp add: bit_simps dest: bit_imp_le_length)
qed

lemma cic_multiplex_bits:
  "uint (ucast (drop_bit 5 ((cic::u16) AND NOT 0x1f)) :: u8) = (uint cic div 32) mod 256"
proof -
  have b: "take_bit 16 (uint cic) = uint cic"
    using uint_lt2p [of cic] by (simp add: take_bit_eq_mod)
  have "uint (ucast (drop_bit 5 cic) :: u8) = take_bit 8 (drop_bit 5 (uint cic))"
    by (simp add: unsigned_ucast_eq unsigned_drop_bit_eq b)
  then show ?thesis
    unfolding drop_cleared_low_bits by (simp add: take_bit_eq_mod drop_bit_eq_div)
qed

lemma cic_to_timeslot_arith:
  "cic_to_timeslot cic = ((uint cic div 32) mod 256, uint cic mod 32)"
  unfolding cic_to_timeslot_def Let_def cic_timeslot_bits cic_multiplex_bits by simp

lemma cic_of_timeslot_arith: "cic_of_timeslot m t = word_of_int (32 * m + t mod 32)"
proof -
  have "push_bit 5 m AND take_bit 5 t = 0"
    by (auto simp: bit_eq_iff bit_simps)
  then have "push_bit 5 m + take_bit 5 t = push_bit 5 m OR take_bit 5 t"
    by (rule disjunctive_add_eq_or)
  moreover have "take_bit 5 t = t AND 0x1f"
    by (simp add: take_bit_eq_mask mask_eq_exp_minus_1)
  ultimately have "push_bit 5 m OR (t AND 0x1f) = 32 * m + t mod 32"
    by (simp add: push_bit_eq_mult take_bit_eq_mod and_1f_int)
  then show ?thesis by (simp add: cic_of_timeslot_def)
qed

lemma uint_word16: "0 \<le> k \<Longrightarrow> k < 65536 \<Longrightarrow> uint (word_of_int k :: u16) = k"
  by (simp add: uint_word_of_int)

lemma cic_decode_encode:
  assumes "0 \<le> m" "m < 256" "0 \<le> t" "t < 32"
  shows "cic_to_timeslot (cic_of_timeslot m t) = (m, t)"
proof -
  define k where "k = 32 * m + t mod 32"
  have k: "0 \<le> k" "k < 65536" "k div 32 = m" "k mod 32 = t"
    using assms by (simp_all add: k_def)
  have "uint (word_of_int k :: u16) = k"
    using k by (simp only: uint_word16)
  then show ?thesis using k assms
    unfolding cic_to_timeslot_arith cic_of_timeslot_arith k_def [symmetric] by simp
qed

text \<open>
  Encoding a pair and decoding it as \<^verbatim>\<open>bsc_mgcp_assign_patch\<close> does gives the pair back
  whenever the multiplex fits the decoder's \<^verbatim>\<open>uint8_t\<close> (0 to 255) and the timeslot is
  one of 1 to 30; \<^verbatim>\<open>create_cic\<close> of the pair's endpoint id is that encoding; and the
  conversions between endpoint ids and (multiplex, timeslot) pairs are inverse to each
  other, from either side.
\<close>

theorem cic_roundtrip:
  assumes "0 \<le> multiplex" "multiplex < 256" "1 \<le> timeslot" "timeslot \<le> 30"
  shows "cic_to_timeslot (cic_of_timeslot multiplex timeslot) = (multiplex, timeslot)
       \<and> create_cic (mgcp_timeslot_to_endpoint multiplex timeslot)
           = cic_of_timeslot multiplex timeslot
       \<and> mgcp_endpoint_to_timeslot (mgcp_timeslot_to_endpoint multiplex timeslot)
           = (multiplex, timeslot)
       \<and> mgcp_timeslot_to_endpoint (fst (mgcp_endpoint_to_timeslot endpoint))
            (snd (mgcp_endpoint_to_timeslot endpoint)) = endpoint"
proof -
  have t: "0 \<le> timeslot" "timeslot < 32" using assms by simp_all
  have "cic_to_timeslot (cic_of_timeslot multiplex timeslot) = (multiplex, timeslot)"
    using assms(1,2) t by (rule cic_decode_encode)
  moreover have inv: "mgcp_endpoint_to_timeslot (mgcp_timeslot_to_endpoint multiplex timeslot)
      = (multiplex, timeslot)"
    using t by (simp add: mgcp_endpoint_to_timeslot_def mgcp_timeslot_to_endpoint_def)
  moreover have "create_cic (mgcp_timeslot_to_endpoint multiplex timeslot)
      = cic_of_timeslot multiplex timeslot"
    unfolding create_cic_def inv by simp
  moreover have "mgcp_timeslot_to_endpoint (fst (mgcp_endpoint_to_timeslot endpoint))
      (snd (mgcp_endpoint_to_timeslot endpoint)) = endpoint"
    by (simp add: mgcp_endpoint_to_timeslot_def mgcp_timeslot_to_endpoint_def)
  ultimately show ?thesis by simp
qed

theorem cic_roundtrip_witness:
  "cic_to_timeslot (cic_of_timeslot 1 1) = (1, 1)
   \<and> create_cic (mgcp_timeslot_to_endpoint 1 1) = cic_of_timeslot 1 1
   \<and> mgcp_endpoint_to_timeslot (mgcp_timeslot_to_endpoint 1 1) = (1, 1)
   \<and> mgcp_timeslot_to_endpoint (fst (mgcp_endpoint_to_timeslot 33))
        (snd (mgcp_endpoint_to_timeslot 33)) = 33"
  using cic_roundtrip [of 1 1 33] by simp

text \<open>
  Beyond that range the decoder loses the multiplex: the pair (256, 1) fits the 16-bit
  code, the inverse of the specification (multiplex = cic >> 5) returns it, and the
  decoder of \<^verbatim>\<open>bsc_mgcp_assign_patch\<close> returns multiplex 0.
\<close>

theorem cic_roundtrip_counterexample:
  "spec_cic_decode (cic_of_timeslot 256 1) = (256, 1)
   \<and> cic_to_timeslot (cic_of_timeslot 256 1) = (0, 1)
   \<and> cic_to_timeslot (cic_of_timeslot 256 1) \<noteq> (256, 1)"
  by (simp add: spec_cic_decode_def cic_to_timeslot_def cic_of_timeslot_def)

subsection \<open>A circuit identity code beyond the trunk\<close>

lemma ex_alias_decode:
  "ntohs_at ex_alias_assignment 4 = 0x2021"
  "cic_to_timeslot 0x2021 = (1, 1)"
  "spec_cic_decode 0x2021 = (257, 1)"
  "cic_of_timeslot 257 1 = 0x2021"
  "patch_endp ex_alias_assignment 4 = 33"
  "u32 (mgcp_timeslot_to_endpoint 257 1) = 8225"
  by (simp_all add: ntohs_at_def ex_alias_assignment_def cic_to_timeslot_def spec_cic_decode_def
      cic_of_timeslot_def patch_endp_def mgcp_timeslot_to_endpoint_def u32_def)

lemma ex_alias_dlcx:
  "bsc_mgcp_dlcx ex_nat_assigned 0 =
     Inr (ex_nat_assigned
            \<lparr>bsc_endpoints := (replicate 65 empty_slot)[33 := empty_slot],
             bsc_heap := (\<lambda>_. ex_bsc 2)(0 := ex_bsc_used
                \<lparr>endpoint_status := Some ((replicate 33 0)[1 := 0]), bsc_out := [ex_dlcx]\<rparr>),
             sccp_heap := (\<lambda>_. ex_con)(0 := \<lparr>con_bsc = 0, msc_endp = -1, bsc_endp = -1\<rparr>)\<rparr>)"
  by (simp add: bsc_mgcp_dlcx_def Let_def ex_nat_assigned_def ex_nat_def ex_bsc_used_def
      in_range_def bsc_mgcp_send_dlcx_def bsc_mgcp_free_endpoint_def bsc_mgcp_init_def
      printf_x_def u32_def hex_digits.simps hex_char_def ex_dlcx_def empty_slot_def ex_con_def)

lemma ex_alias_session:
  "assign_session ex_nat_assigned 1 33 = Inr (0, ex_nat_aliased)"
proof -
  let ?n1 = "ex_nat_assigned
            \<lparr>bsc_endpoints := (replicate 65 empty_slot)[33 := empty_slot],
             bsc_heap := (\<lambda>_. ex_bsc 2)(0 := ex_bsc_used
                \<lparr>endpoint_status := Some ((replicate 33 0)[1 := 0]), bsc_out := [ex_dlcx]\<rparr>),
             sccp_heap := (\<lambda>_. ex_con)(0 := \<lparr>con_bsc = 0, msc_endp = -1, bsc_endp = -1\<rparr>)\<rparr>"
  have st: "stale_loop ex_nat_assigned 33 (sccp_list ex_nat_assigned) = Inr ?n1"
    using ex_alias_dlcx
    by (simp add: ex_nat_assigned_def ex_nat_def u32_def ex_con_def)
  have r: "(replicate n x)[i := x] = replicate n x" for n i and x :: 'a
    by (induction n arbitrary: i) (simp_all split: nat.splits)
  have a: "bsc_assign_endpoint
      (ex_bsc_used\<lparr>endpoint_status := Some (replicate 33 0), bsc_out := [ex_dlcx]\<rparr>)
      \<lparr>con_bsc = 0, msc_endp = 33, bsc_endp = -1\<rparr>
     = Inr (0, ex_bsc_used\<lparr>bsc_out := [ex_dlcx]\<rparr>, \<lparr>con_bsc = 0, msc_endp = 33, bsc_endp = 1\<rparr>)"
    by (simp add: bsc_assign_endpoint_def mgcp_endpoint_to_timeslot_def eval_nat_numeral
      scan_slot_def mgcp_timeslot_to_endpoint_def Let_def ex_bsc_used_def)
  show ?thesis
    unfolding assign_session_def Let_def st
    using a
    by (simp add: r ex_nat_aliased_def ex_nat_assigned_def ex_nat_def ex_con_def
        bsc_init_endps_if_needed_def ex_bsc_used_def)
qed

lemma ex_alias_patch:
  "bsc_mgcp_assign_patch ex_nat_assigned 1 (Some ex_alias_assignment) (Some 4)
     = Inr (0, ex_nat_aliased, Some (ex_assignment 1))"
proof -
  have pe: "patch_endp [0, 1, 0, 1, 0x20, 0x21] 4 = 33"
    using ex_alias_decode(5) by (simp add: ex_alias_assignment_def)
  have n: "number_endpoints ex_nat_assigned = 64"
    by (simp add: ex_nat_assigned_def ex_nat_def)
  have b: "bsc_endp (sccp_heap ex_nat_aliased (Suc 0)) = 1"
    by (simp add: ex_nat_aliased_def)
  show ?thesis
    using ex_alias_session
    by (simp add: bsc_mgcp_assign_patch_def Let_def ex_alias_assignment_def pe n b u32_def
        ex_assignment_def htons_bytes_def create_cic_def mgcp_endpoint_to_timeslot_def
        cic_of_timeslot_def)
qed

text \<open>
  C4.  The decoder of \<^verbatim>\<open>bsc_mgcp_assign_patch\<close> is not the inverse of the encoding for a
  multiplex of 256 or more, and the message that shows it is accepted.  The code 0x2021
  encodes (257, 1), endpoint 8225, which a trunk of 64 endpoints does not have; the
  \<^verbatim>\<open>uint8_t\<close> multiplex of the decoder makes it (1, 1), endpoint 33, and the assignment
  returns 0: session 0, which holds endpoint 33, is torn down with a DLCX to its BSC and
  session 1 takes the endpoint.
\<close>

theorem cic_multiplex_truncated:
  "ntohs_at ex_alias_assignment 4 = 0x2021
   \<and> cic_of_timeslot 257 1 = 0x2021
   \<and> spec_cic_decode 0x2021 = (257, 1)
   \<and> u32 (mgcp_timeslot_to_endpoint 257 1) = 8225
   \<and> number_endpoints ex_nat_assigned = 64
   \<and> cic_to_timeslot 0x2021 = (1, 1)
   \<and> patch_endp ex_alias_assignment 4 = 33
   \<and> sccp_heap ex_nat_assigned 0 = \<lparr>con_bsc = 0, msc_endp = 33, bsc_endp = 1\<rparr>
   \<and> bsc_mgcp_assign_patch ex_nat_assigned 1 (Some ex_alias_assignment) (Some 4)
       = Inr (0, ex_nat_aliased, Some (ex_assignment 1))
   \<and> sccp_heap ex_nat_aliased 0 = \<lparr>con_bsc = 0, msc_endp = -1, bsc_endp = -1\<rparr>
   \<and> sccp_heap ex_nat_aliased 1 = \<lparr>con_bsc = 0, msc_endp = 33, bsc_endp = 1\<rparr>
   \<and> bsc_out (bsc_heap ex_nat_aliased 0) = [ex_dlcx]"
  using ex_alias_decode ex_alias_patch
  by (simp add: ex_nat_aliased_def ex_nat_assigned_def ex_nat_def)

section \<open>Proofs: the endpoint allocator\<close>

lemma slot_div_mod:
  fixes m t :: int
  assumes "0 \<le> t" "t < 32"
  shows "(32 * m + t) div 32 = m" and "(32 * m + t) mod 32 = t"
  using assms by simp_all

lemma scan_slot_next:
  assumes e: "0 \<le> e" "e mod 32 \<le> 30" and nm: "1 \<le> number_multiplexes b"
  shows "scan_slot b (e div 32) (e mod 32 + 1) =
           (spec_next_slot b e div 32, spec_next_slot b e mod 32, spec_next_slot b e)
         \<and> 0 \<le> spec_next_slot b e \<and> 1 \<le> spec_next_slot b e mod 32
         \<and> spec_next_slot b e mod 32 \<le> 30
         \<and> spec_next_slot b e div 32 < number_multiplexes b"
proof -
  define t where "t = e mod 32"
  define m where "m = e div 32"
  have t: "0 \<le> t" "t \<le> 30" using e by (simp_all add: t_def)
  have m: "0 \<le> m" using e by (simp add: m_def pos_imp_zdiv_nonneg_iff)
  define ts where "ts = (if t = 30 then 1 else t + 1)"
  define mx where "mx = (if t = 30 then m + 1 else m)"
  define mx1 where "mx1 = (if mx \<ge> number_multiplexes b then 0 else mx)"
  have ts: "1 \<le> ts" "ts \<le> 30" using t by (auto simp: ts_def)
  have mx1: "0 \<le> mx1" "mx1 < number_multiplexes b"
    using m nm by (auto simp: mx1_def mx_def)
  define cand where "cand = 32 * mx1 + ts"
  have cand: "cand div 32 = mx1" "cand mod 32 = ts" "0 \<le> cand"
    using ts mx1 slot_div_mod [of ts mx1] by (simp_all add: cand_def)
  have code: "scan_slot b m (t + 1) =
      (if cand \<ge> max_endpoints b then (0, 1, 1) else (mx1, ts, cand))"
    using t by (auto simp: scan_slot_def Let_def mgcp_timeslot_to_endpoint_def
        cand_def mx1_def mx_def ts_def)
  have spec: "spec_next_slot b e = (if cand \<ge> max_endpoints b then 1 else cand)"
    using t by (auto simp: spec_next_slot_def Let_def cand_def mx1_def mx_def ts_def
        t_def [symmetric] m_def [symmetric])
  show ?thesis
  proof (cases "cand \<ge> max_endpoints b")
    case True
    then show ?thesis using code spec nm
      by (simp add: t_def [symmetric] m_def [symmetric])
  next
    case False
    then show ?thesis using code spec cand ts mx1
      by (simp add: t_def [symmetric] m_def [symmetric])
  qed
qed

lemma assign_loop_find:
  assumes st: "endpoint_status b = Some st"
    and len: "length st = nat (32 * number_multiplexes b + 1)"
    and nm: "1 \<le> number_multiplexes b"
  shows "0 \<le> e \<Longrightarrow> e mod 32 \<le> 30 \<Longrightarrow>
    assign_loop n (e div 32) (e mod 32 + 1) b con =
      Inr (case find (\<lambda>e. st ! nat e = 0) (spec_scan b n e) of
             None \<Rightarrow> (-1, b, con)
           | Some e \<Rightarrow>
               (0, b\<lparr>endpoint_status := Some (st[nat e := 1]), last_endpoint := e\<rparr>,
                con\<lparr>bsc_endp := e\<rparr>))"
proof (induction n arbitrary: e)
  case 0
  then show ?case by simp
next
  case (Suc n)
  let ?e = "spec_next_slot b e"
  from scan_slot_next [OF Suc.prems nm]
  have step: "scan_slot b (e div 32) (e mod 32 + 1) = (?e div 32, ?e mod 32, ?e)"
    and e': "0 \<le> ?e" "1 \<le> ?e mod 32" "?e mod 32 \<le> 30" "?e div 32 < number_multiplexes b"
    by simp_all
  have "?e = 32 * (?e div 32) + ?e mod 32" by simp
  with e' have "?e < 32 * number_multiplexes b + 1" by linarith
  with e' len have rng: "\<not> (?e < 0 \<or> int (length st) \<le> ?e)" by simp
  show ?case
  proof (cases "st ! nat ?e = 0")
    case True
    then show ?thesis using step st rng by simp
  next
    case False
    then show ?thesis using step st rng Suc.IH [OF e'(1) e'(3)] by simp
  qed
qed

lemma spec_scan_props:
  assumes nm: "1 \<le> number_multiplexes b"
  shows "0 \<le> e \<Longrightarrow> e mod 32 \<le> 30 \<Longrightarrow>
    length (spec_scan b n e) = n \<and>
    (\<forall>x \<in> set (spec_scan b n e). 0 \<le> x \<and> 1 \<le> x mod 32 \<and> x mod 32 \<le> 30
        \<and> x div 32 < number_multiplexes b)"
proof (induction n arbitrary: e)
  case 0
  then show ?case by simp
next
  case (Suc n)
  from scan_slot_next [OF Suc.prems nm]
  have e': "0 \<le> spec_next_slot b e" "1 \<le> spec_next_slot b e mod 32"
    "spec_next_slot b e mod 32 \<le> 30" "spec_next_slot b e div 32 < number_multiplexes b"
    by simp_all
  from Suc.IH [OF e'(1) e'(3)] e' show ?case by simp
qed

lemma nr_multiplexes_pos: "1 \<le> m \<Longrightarrow> 1 \<le> bsc_mgcp_nr_multiplexes m"
  by (auto simp: bsc_mgcp_nr_multiplexes_def c_quot_def c_rem_def Let_def sgn_if)

text \<open>
  C5.  On a BSC whose status array is the one \<^const>\<open>bsc_init_endps_if_needed\<close> made
  and whose cursor \<open>last_endpoint\<close> is 0 or an endpoint handed out before, the loop of
  \<^verbatim>\<open>bsc_assign_endpoint\<close> is the scan of the spec: it looks at the \<open>max_endpoints\<close>
  slots after \<open>last_endpoint\<close> in scan order, claims the first whose status byte is 0
  (the byte becomes 1, the endpoint is stored in the session's \<open>bsc_endp\<close> and in
  \<open>last_endpoint\<close>, and 0 is returned), and returns -1 with nothing changed when none
  of them is free.  No slot of the scan has timeslot 0 or 31, and the multiplex of every
  slot is below \<open>number_multiplexes\<close>.
\<close>

theorem bsc_assign_endpoint_scan:
  assumes st: "endpoint_status b = Some st"
    and len: "length st = nat (32 * number_multiplexes b + 1)"
    and nm: "number_multiplexes b = bsc_mgcp_nr_multiplexes (max_endpoints b)"
    and last: "0 \<le> last_endpoint b" "last_endpoint b mod 32 \<le> 30"
  shows "bsc_assign_endpoint b con = Inr (spec_allocate b st con)
       \<and> length (spec_scan b (nat (max_endpoints b)) (last_endpoint b))
           = nat (max_endpoints b)
       \<and> (\<forall>e \<in> set (spec_scan b (nat (max_endpoints b)) (last_endpoint b)).
             e mod 32 \<noteq> 0 \<and> e mod 32 \<noteq> 31
             \<and> 0 \<le> e div 32 \<and> e div 32 < number_multiplexes b)"
proof (cases "1 \<le> max_endpoints b")
  case True
  then have pos: "1 \<le> number_multiplexes b"
    using nm nr_multiplexes_pos by simp
  have "bsc_assign_endpoint b con = Inr (spec_allocate b st con)"
    unfolding bsc_assign_endpoint_def spec_allocate_def Let_def mgcp_endpoint_to_timeslot_def
    using assign_loop_find [OF st len pos last] by simp
  moreover from spec_scan_props [OF pos last]
  have "length (spec_scan b (nat (max_endpoints b)) (last_endpoint b)) = nat (max_endpoints b)"
    and "\<forall>e \<in> set (spec_scan b (nat (max_endpoints b)) (last_endpoint b)).
           0 \<le> e \<and> 1 \<le> e mod 32 \<and> e mod 32 \<le> 30 \<and> e div 32 < number_multiplexes b"
    by simp_all
  ultimately show ?thesis
    by (auto simp: pos_imp_zdiv_nonneg_iff)
next
  case False
  then have "nat (max_endpoints b) = 0" by simp
  then show ?thesis
    by (simp add: bsc_assign_endpoint_def spec_allocate_def Let_def
        mgcp_endpoint_to_timeslot_def)
qed

lemma ex_bsc_busy_allocate:
  "spec_allocate ex_bsc_busy ((replicate 65 0)[30 := 1, 33 := 1]) ex_con
   = (0, ex_bsc_busy\<lparr>endpoint_status := Some ((replicate 65 0)[30 := 1, 33 := 1, 34 := 1]),
          last_endpoint := 34\<rparr>, ex_con\<lparr>bsc_endp := 34\<rparr>)"
  by (simp add: spec_allocate_def ex_bsc_busy_def ex_con_def eval_nat_numeral
      spec_next_slot_def)

theorem bsc_assign_endpoint_scan_witness:
  "endpoint_status ex_bsc_busy = Some ((replicate 65 0)[30 := 1, 33 := 1])
   \<and> length ((replicate 65 (0::u8))[30 := 1, 33 := 1])
       = nat (32 * number_multiplexes ex_bsc_busy + 1)
   \<and> number_multiplexes ex_bsc_busy = bsc_mgcp_nr_multiplexes (max_endpoints ex_bsc_busy)
   \<and> 0 \<le> last_endpoint ex_bsc_busy \<and> last_endpoint ex_bsc_busy mod 32 \<le> 30
   \<and> bsc_assign_endpoint ex_bsc_busy ex_con
       = Inr (0, ex_bsc_busy\<lparr>endpoint_status :=
                     Some ((replicate 65 0)[30 := 1, 33 := 1, 34 := 1]),
                   last_endpoint := 34\<rparr>,
              ex_con\<lparr>bsc_endp := 34\<rparr>)"
proof -
  have h: "endpoint_status ex_bsc_busy = Some ((replicate 65 0)[30 := 1, 33 := 1])"
    "length ((replicate 65 (0::u8))[30 := 1, 33 := 1])
       = nat (32 * number_multiplexes ex_bsc_busy + 1)"
    "number_multiplexes ex_bsc_busy = bsc_mgcp_nr_multiplexes (max_endpoints ex_bsc_busy)"
    "0 \<le> last_endpoint ex_bsc_busy" "last_endpoint ex_bsc_busy mod 32 \<le> 30"
    by (simp_all add: ex_bsc_busy_def bsc_mgcp_nr_multiplexes_def c_quot_def c_rem_def)
  from bsc_assign_endpoint_scan [OF h, of ex_con] h show ?thesis
    by (simp add: ex_bsc_busy_allocate)
qed

lemma stale_loop_none:
  "\<forall>s \<in> set l. u32 (msc_endp (sccp_heap nt s)) \<noteq> endp \<Longrightarrow> stale_loop nt endp l = Inr nt"
  by (induction l) auto

lemma init_fresh:
  assumes "endpoint_status b = None" "cfg_max_endpoints b = Some 2"
  shows "bsc_init_endps_if_needed b =
    (0, b\<lparr>number_multiplexes := 1, max_endpoints := 2,
          endpoint_status := Some (replicate 33 0)\<rparr>)"
  using assms
  by (simp add: bsc_init_endps_if_needed_def bsc_mgcp_nr_multiplexes_def c_quot_def c_rem_def Let_def)

lemma init_done:
  "endpoint_status b = Some st \<Longrightarrow> bsc_init_endps_if_needed b = (0, b)"
  by (simp add: bsc_init_endps_if_needed_def)

lemma assign_first:
  assumes "endpoint_status b = Some (replicate 33 0)" "max_endpoints b = 2"
    "number_multiplexes b = 1" "last_endpoint b = 0"
  shows "bsc_assign_endpoint b con =
    Inr (0, b\<lparr>endpoint_status := Some ((replicate 33 0)[1 := 1]), last_endpoint := 1\<rparr>,
         con\<lparr>bsc_endp := 1\<rparr>)"
  using assms
  by (simp add: bsc_assign_endpoint_def mgcp_endpoint_to_timeslot_def eval_nat_numeral
      scan_slot_def mgcp_timeslot_to_endpoint_def Let_def)

lemma assign_second:
  assumes "endpoint_status b = Some st" "length st = 33" "st ! 1 \<noteq> 0" "max_endpoints b = 2"
    "number_multiplexes b = 1" "last_endpoint b = 1"
  shows "bsc_assign_endpoint b con = Inr (-1, b, con)"
  using assms
  by (simp add: bsc_assign_endpoint_def mgcp_endpoint_to_timeslot_def eval_nat_numeral
      scan_slot_def mgcp_timeslot_to_endpoint_def Let_def)

lemma assign_patch_success:
  assumes "bsc_mgcp_assign_patch nt c l3 cic_val = Inr (0, n1, l3')"
  shows "\<exists>bytes p. l3 = Some bytes \<and> cic_val = Some p \<and> p + 2 \<le> length bytes
          \<and> l3' = Some (take p bytes @ htons_bytes (create_cic (bsc_endp (sccp_heap n1 c)))
                          @ drop (p + 2) bytes)"
  using assms unfolding bsc_mgcp_assign_patch_def Let_def
  by (auto split: option.splits if_splits sum.splits prod.splits)

lemma ntohs_htons: "ntohs_at (pre @ htons_bytes v @ post) (length pre) = v"
  unfolding ntohs_at_def htons_bytes_def
  apply (simp add: nth_append)
  apply (rule bit_word_eqI)
  apply (auto simp add: bit_simps dest: bit_imp_le_length)
  done

lemma u32_idem: "u32 (u32 x) = u32 x" by (simp add: u32_def)

lemma patch_endp_u32: "u32 (patch_endp m p) = patch_endp m p"
  by (simp add: patch_endp_def u32_idem split: prod.splits)

lemma assign_session_first:
  assumes fresh: "endpoint_status (bsc_heap nt bp) = None"
      "cfg_max_endpoints (bsc_heap nt bp) = Some 2" "last_endpoint (bsc_heap nt bp) = 0"
    and c: "con_bsc (sccp_heap nt c) = bp"
    and unused: "\<forall>s \<in> set (sccp_list nt). u32 (msc_endp (sccp_heap nt s)) \<noteq> e"
  shows "assign_session nt c e =
    Inr (0, nt\<lparr>bsc_heap := (bsc_heap nt)(bp := (bsc_heap nt bp)
                 \<lparr>number_multiplexes := 1, max_endpoints := 2,
                  endpoint_status := Some ((replicate 33 0)[1 := 1]), last_endpoint := 1\<rparr>),
              sccp_heap := (sccp_heap nt)(c := (sccp_heap nt c)\<lparr>msc_endp := e, bsc_endp := 1\<rparr>)\<rparr>)"
proof -
  let ?b1 = "(bsc_heap nt bp)\<lparr>number_multiplexes := 1, max_endpoints := 2,
          endpoint_status := Some (replicate 33 0)\<rparr>"
  have a: "bsc_assign_endpoint ?b1 ((sccp_heap nt c)\<lparr>msc_endp := e\<rparr>) =
    Inr (0, ?b1\<lparr>endpoint_status := Some ((replicate 33 0)[1 := 1]), last_endpoint := 1\<rparr>,
         (sccp_heap nt c)\<lparr>msc_endp := e, bsc_endp := 1\<rparr>)"
    using fresh by (subst assign_first) simp_all
  show ?thesis
    unfolding assign_session_def Let_def
    using stale_loop_none [OF unused] c init_fresh [OF fresh(1,2)] a
    by simp
qed

lemma assign_session_full:
  assumes st: "endpoint_status (bsc_heap nt bp) = Some st" "length st = 33" "st ! 1 \<noteq> 0"
      "max_endpoints (bsc_heap nt bp) = 2" "number_multiplexes (bsc_heap nt bp) = 1"
      "last_endpoint (bsc_heap nt bp) = 1"
    and c: "con_bsc (sccp_heap nt c) = bp"
    and unused: "\<forall>s \<in> set (sccp_list nt). u32 (msc_endp (sccp_heap nt s)) \<noteq> e"
  shows "assign_session nt c e =
    Inr (-1, nt\<lparr>sccp_heap := (sccp_heap nt)(c := (sccp_heap nt c)\<lparr>msc_endp := e\<rparr>)\<rparr>)"
proof -
  have a: "bsc_assign_endpoint (bsc_heap nt bp) ((sccp_heap nt c)\<lparr>msc_endp := e\<rparr>) =
    Inr (-1, bsc_heap nt bp, (sccp_heap nt c)\<lparr>msc_endp := e\<rparr>)"
    using st by (rule assign_second)
  show ?thesis
    unfolding assign_session_def Let_def
    using stale_loop_none [OF unused] c init_done [OF st(1)] a
    by simp
qed

section \<open>Proofs: the BSSMAP assignment patcher\<close>

text \<open>
  C3 (as amended).  On a BSC that has not allocated yet and is configured with
  \<open>max_endpoints = 2\<close>, an assignment for an MSC endpoint that no session holds
  succeeds and hands out endpoint 1, and the assignment after it, for another session
  of the BSC and another unused MSC endpoint, already finds the allocator exhausted:
  \<^verbatim>\<open>bsc_mgcp_assign_patch\<close> returns -1 and leaves the message as it was.  Endpoint 1
  is the only endpoint such a BSC can hand out: timeslot 0 is never scanned and
  endpoint 2 is not below \<open>max_endpoints\<close>.
\<close>

theorem assign_patch_two_endpoints:
  assumes fresh: "endpoint_status (bsc_heap nt bp) = None"
      "cfg_max_endpoints (bsc_heap nt bp) = Some 2" "last_endpoint (bsc_heap nt bp) = 0"
    and sessions: "con_bsc (sccp_heap nt c1) = bp" "con_bsc (sccp_heap nt c2) = bp" "c1 \<noteq> c2"
    and m1: "3 \<le> length m1" "p1 + 2 \<le> length m1" "patch_endp m1 p1 < u32 (number_endpoints nt)"
    and m2: "3 \<le> length m2" "p2 + 2 \<le> length m2" "patch_endp m2 p2 < u32 (number_endpoints nt)"
    and distinct: "patch_endp m1 p1 \<noteq> patch_endp m2 p2"
    and unused: "\<forall>s \<in> set (sccp_list nt).
        u32 (msc_endp (sccp_heap nt s)) \<noteq> patch_endp m1 p1
        \<and> u32 (msc_endp (sccp_heap nt s)) \<noteq> patch_endp m2 p2"
  shows "\<exists>n1 m1' n2.
      bsc_mgcp_assign_patch nt c1 (Some m1) (Some p1) = Inr (0, n1, Some m1')
    \<and> bsc_endp (sccp_heap n1 c1) = 1
    \<and> bsc_mgcp_assign_patch n1 c2 (Some m2) (Some p2) = Inr (-1, n2, Some m2)"
proof -
  let ?e1 = "patch_endp m1 p1" and ?e2 = "patch_endp m2 p2"
  define n1 where "n1 = nt\<lparr>bsc_heap := (bsc_heap nt)(bp := (bsc_heap nt bp)
                 \<lparr>number_multiplexes := 1, max_endpoints := 2,
                  endpoint_status := Some ((replicate 33 0)[1 := 1]), last_endpoint := 1\<rparr>),
              sccp_heap := (sccp_heap nt)(c1 := (sccp_heap nt c1)\<lparr>msc_endp := ?e1, bsc_endp := 1\<rparr>)\<rparr>"
  have u1: "\<forall>s \<in> set (sccp_list nt). u32 (msc_endp (sccp_heap nt s)) \<noteq> ?e1"
    using unused by simp
  have s1: "assign_session nt c1 ?e1 = Inr (0, n1)"
    unfolding n1_def using fresh sessions(1) u1 by (rule assign_session_first)
  have first: "bsc_mgcp_assign_patch nt c1 (Some m1) (Some p1) =
      Inr (0, n1, Some (take p1 m1 @ htons_bytes (create_cic (bsc_endp (sccp_heap n1 c1)))
                         @ drop (p1 + 2) m1))"
    unfolding bsc_mgcp_assign_patch_def Let_def using m1 s1 by simp
  have endp: "bsc_endp (sccp_heap n1 c1) = 1" by (simp add: n1_def)
  have u2: "\<forall>s \<in> set (sccp_list n1). u32 (msc_endp (sccp_heap n1 s)) \<noteq> ?e2"
    using unused distinct by (simp add: n1_def patch_endp_u32)
  have s2: "assign_session n1 c2 ?e2 =
      Inr (-1, n1\<lparr>sccp_heap := (sccp_heap n1)(c2 := (sccp_heap n1 c2)\<lparr>msc_endp := ?e2\<rparr>)\<rparr>)"
  proof (rule assign_session_full [where bp = bp and st = "(replicate 33 0)[1 := 1]"])
    show "con_bsc (sccp_heap n1 c2) = bp" using sessions by (simp add: n1_def)
  qed (use u2 in \<open>simp_all add: n1_def\<close>)
  have second: "bsc_mgcp_assign_patch n1 c2 (Some m2) (Some p2) =
      Inr (-1, n1\<lparr>sccp_heap := (sccp_heap n1)(c2 := (sccp_heap n1 c2)\<lparr>msc_endp := ?e2\<rparr>)\<rparr>,
           Some m2)"
    unfolding bsc_mgcp_assign_patch_def Let_def using m2 s2 by (simp add: n1_def)
  from first endp second show ?thesis by blast
qed

lemma ex_patch_endp:
  "patch_endp (ex_assignment 0x21) 4 = 33" "patch_endp (ex_assignment 0x22) 4 = 34"
  by (simp_all add: patch_endp_def ntohs_at_def cic_to_timeslot_def ex_assignment_def
      mgcp_timeslot_to_endpoint_def u32_def)

lemma ex_patch_endp_bytes:
  "patch_endp [0, 1, 0, 1, 0, 33] 4 = 33" "patch_endp [0, 1, 0, 1, 0, 34] 4 = 34"
  using ex_patch_endp by (simp_all add: ex_assignment_def)

lemma ex_nat_fields:
  "number_endpoints ex_nat = 64" "sccp_list ex_nat = [0, 1, 2]"
  "sccp_heap ex_nat = (\<lambda>_. ex_con)" "bsc_heap ex_nat = (\<lambda>_. ex_bsc 2)"
  by (simp_all add: ex_nat_def)

lemma ex_first_assignment:
  "bsc_mgcp_assign_patch ex_nat 0 (Some (ex_assignment 0x21)) (Some 4)
     = Inr (0, ex_nat_assigned, Some (ex_assignment 1))"
proof -
  have "assign_session ex_nat 0 33 = Inr (0, ex_nat_assigned)"
    by (subst assign_session_first [where bp = 0])
      (simp_all add: ex_nat_assigned_def ex_nat_def ex_bsc_def ex_con_def ex_bsc_used_def u32_def)
  then show ?thesis
    unfolding bsc_mgcp_assign_patch_def Let_def ex_patch_endp
    by (simp add: ex_nat_fields u32_def ex_nat_assigned_def ex_assignment_def
        ex_patch_endp_bytes
        htons_bytes_def create_cic_def mgcp_endpoint_to_timeslot_def cic_of_timeslot_def)
qed

lemma ex_second_assignment:
  "bsc_mgcp_assign_patch ex_nat_assigned 1 (Some (ex_assignment 0x22)) (Some 4)
     = Inr (-1, ex_nat_assigned\<lparr>sccp_heap := (sccp_heap ex_nat_assigned)
                   (1 := \<lparr>con_bsc = 0, msc_endp = 34, bsc_endp = -1\<rparr>)\<rparr>,
            Some (ex_assignment 0x22))"
proof -
  have "assign_session ex_nat_assigned 1 34 =
     Inr (-1, ex_nat_assigned\<lparr>sccp_heap := (sccp_heap ex_nat_assigned)
                   (1 := (sccp_heap ex_nat_assigned 1)\<lparr>msc_endp := 34\<rparr>)\<rparr>)"
    by (rule assign_session_full [where bp = 0 and st = "(replicate 33 0)[1 := 1]"])
      (simp_all add: ex_nat_assigned_def ex_nat_def ex_bsc_def ex_con_def ex_bsc_used_def u32_def)
  then show ?thesis
    unfolding bsc_mgcp_assign_patch_def Let_def ex_patch_endp
    by (simp add: ex_nat_fields u32_def ex_nat_assigned_def ex_assignment_def ex_con_def
        ex_patch_endp_bytes)
qed

text \<open>
  The claim as stated fails: on the fresh example NAT, whose BSC 0 has
  \<open>max_endpoints = 2\<close>, the first assignment returns 0 and the second one returns -1.
\<close>

theorem assign_patch_two_endpoints_counterexample:
  "endpoint_status (bsc_heap ex_nat 0) = None
   \<and> cfg_max_endpoints (bsc_heap ex_nat 0) = Some 2
   \<and> bsc_mgcp_assign_patch ex_nat 0 (Some (ex_assignment 0x21)) (Some 4)
       = Inr (0, ex_nat_assigned, Some (ex_assignment 1))
   \<and> bsc_mgcp_assign_patch ex_nat_assigned 1 (Some (ex_assignment 0x22)) (Some 4)
       = Inr (-1, ex_nat_assigned\<lparr>sccp_heap := (sccp_heap ex_nat_assigned)
                      (1 := \<lparr>con_bsc = 0, msc_endp = 34, bsc_endp = -1\<rparr>)\<rparr>,
              Some (ex_assignment 0x22))"
  using ex_first_assignment ex_second_assignment
  by (simp add: ex_nat_def ex_bsc_def)

theorem assign_patch_two_endpoints_witness:
  "endpoint_status (bsc_heap ex_nat 0) = None
   \<and> cfg_max_endpoints (bsc_heap ex_nat 0) = Some 2
   \<and> last_endpoint (bsc_heap ex_nat 0) = 0
   \<and> con_bsc (sccp_heap ex_nat 0) = 0 \<and> con_bsc (sccp_heap ex_nat 1) = 0
   \<and> patch_endp (ex_assignment 0x21) 4 = 33 \<and> patch_endp (ex_assignment 0x22) 4 = 34
   \<and> (\<exists>n1 m1' n2.
        bsc_mgcp_assign_patch ex_nat 0 (Some (ex_assignment 0x21)) (Some 4)
          = Inr (0, n1, Some m1')
      \<and> bsc_endp (sccp_heap n1 0) = 1
      \<and> bsc_mgcp_assign_patch n1 1 (Some (ex_assignment 0x22)) (Some 4)
          = Inr (-1, n2, Some (ex_assignment 0x22)))"
proof -
  have h: "endpoint_status (bsc_heap ex_nat 0) = None"
    "cfg_max_endpoints (bsc_heap ex_nat 0) = Some 2" "last_endpoint (bsc_heap ex_nat 0) = 0"
    "con_bsc (sccp_heap ex_nat 0) = 0" "con_bsc (sccp_heap ex_nat 1) = 0" "(0::nat) \<noteq> 1"
    by (simp_all add: ex_nat_def ex_bsc_def ex_con_def)
  have m: "3 \<le> length (ex_assignment 0x21)" "4 + 2 \<le> length (ex_assignment 0x21)"
    "patch_endp (ex_assignment 0x21) 4 < u32 (number_endpoints ex_nat)"
    "3 \<le> length (ex_assignment 0x22)" "4 + 2 \<le> length (ex_assignment 0x22)"
    "patch_endp (ex_assignment 0x22) 4 < u32 (number_endpoints ex_nat)"
    "patch_endp (ex_assignment 0x21) 4 \<noteq> patch_endp (ex_assignment 0x22) 4"
    by (simp_all add: ex_patch_endp ex_nat_fields u32_def) (simp_all add: ex_assignment_def)
  have u: "\<forall>s \<in> set (sccp_list ex_nat).
        u32 (msc_endp (sccp_heap ex_nat s)) \<noteq> patch_endp (ex_assignment 0x21) 4
        \<and> u32 (msc_endp (sccp_heap ex_nat s)) \<noteq> patch_endp (ex_assignment 0x22) 4"
    by (simp add: ex_patch_endp ex_nat_fields ex_con_def u32_def)
  from assign_patch_two_endpoints [OF h m u] h ex_patch_endp show ?thesis by simp
qed

lemma dlcx_unbound:
  "bsc_endp (sccp_heap nt c) = -1 \<or> endpoint_status (bsc_heap nt (con_bsc (sccp_heap nt c))) = None
   \<Longrightarrow> bsc_mgcp_dlcx nt c =
     Inr (nt\<lparr>sccp_heap := (sccp_heap nt)(c := (sccp_heap nt c)\<lparr>msc_endp := -1, bsc_endp := -1\<rparr>)\<rparr>)"
  unfolding bsc_mgcp_dlcx_def Let_def bsc_mgcp_init_def by auto

lemma free_endpoint_frame:
  "bsc_mgcp_free_endpoint nt i = Inr n1 \<Longrightarrow>
     sccp_heap n1 = sccp_heap nt \<and> bsc_heap n1 = bsc_heap nt"
  unfolding bsc_mgcp_free_endpoint_def by (auto split: if_splits)

lemma dlcx_bound:
  assumes "bsc_endp (sccp_heap nt c) \<noteq> -1"
    and "endpoint_status (bsc_heap nt (con_bsc (sccp_heap nt c))) = Some st"
    and "in_range (bsc_endp (sccp_heap nt c)) st"
    and "in_range (msc_endp (sccp_heap nt c)) (bsc_endpoints nt)"
  shows "bsc_mgcp_dlcx nt c =
     Inr (nt\<lparr>bsc_heap := (bsc_heap nt)(con_bsc (sccp_heap nt c) :=
                 bsc_mgcp_send_dlcx
                   ((bsc_heap nt (con_bsc (sccp_heap nt c)))
                      \<lparr>endpoint_status := Some (st[nat (bsc_endp (sccp_heap nt c)) := 0])\<rparr>)
                   (bsc_endp (sccp_heap nt c))),
              bsc_endpoints := (bsc_endpoints nt)[nat (msc_endp (sccp_heap nt c)) :=
                 (bsc_endpoints nt ! nat (msc_endp (sccp_heap nt c)))
                   \<lparr>transaction_id := None, transaction_state := 0, bsc := None\<rparr>],
              sccp_heap := (sccp_heap nt)(c := (sccp_heap nt c)\<lparr>msc_endp := -1, bsc_endp := -1\<rparr>)\<rparr>)"
  using assms
  unfolding bsc_mgcp_dlcx_def Let_def bsc_mgcp_init_def bsc_mgcp_free_endpoint_def in_range_def
  by simp

lemma dlcx_reset:
  "bsc_mgcp_dlcx nt c = Inr n1 \<Longrightarrow>
     msc_endp (sccp_heap n1 c) = -1 \<and> bsc_endp (sccp_heap n1 c) = -1"
  unfolding bsc_mgcp_dlcx_def Let_def bsc_mgcp_init_def bsc_mgcp_free_endpoint_def
  by (auto split: if_splits)

text \<open>
  C6.  When \<^verbatim>\<open>bsc_mgcp_assign_patch\<close> returns 0, the message it leaves has the length
  of the one it was given, the two bytes of the CIRCUIT_IDENTITY_CODE value hold
  \<open>create_cic\<close> of the session's \<open>bsc_endp\<close>, most significant byte first (reading
  them back with \<^verbatim>\<open>ntohs\<close> gives that code), and every other byte is unchanged.
\<close>

theorem assign_patch_frame:
  assumes "bsc_mgcp_assign_patch nt c l3 cic_val = Inr (0, n1, l3')"
  shows "\<exists>bytes p patched. l3 = Some bytes \<and> cic_val = Some p \<and> l3' = Some patched
       \<and> p + 2 \<le> length bytes \<and> length patched = length bytes
       \<and> [patched ! p, patched ! (p + 1)]
           = htons_bytes (create_cic (bsc_endp (sccp_heap n1 c)))
       \<and> ntohs_at patched p = create_cic (bsc_endp (sccp_heap n1 c))
       \<and> (\<forall>i < length bytes. i \<noteq> p \<and> i \<noteq> p + 1 \<longrightarrow> patched ! i = bytes ! i)"
proof -
  let ?v = "create_cic (bsc_endp (sccp_heap n1 c))"
  from assign_patch_success [OF assms] obtain bytes p where
    l3: "l3 = Some bytes" and p: "cic_val = Some p" and len: "p + 2 \<le> length bytes"
    and new: "l3' = Some (take p bytes @ htons_bytes ?v @ drop (p + 2) bytes)"
    by blast
  let ?patched = "take p bytes @ htons_bytes ?v @ drop (p + 2) bytes"
  have lp: "length (take p bytes) = p" using len by simp
  have l: "length ?patched = length bytes"
    using len by (simp add: htons_bytes_def)
  have two: "[?patched ! p, ?patched ! (p + 1)] = htons_bytes ?v"
    using lp by (simp add: nth_append htons_bytes_def)
  have rd: "ntohs_at ?patched p = ?v"
    using ntohs_htons [of "take p bytes" ?v "drop (p + 2) bytes"] lp by simp
  have rest: "\<forall>i < length bytes. i \<noteq> p \<and> i \<noteq> p + 1 \<longrightarrow> ?patched ! i = bytes ! i"
  proof (intro allI impI)
    fix i assume i: "i < length bytes" and ne: "i \<noteq> p \<and> i \<noteq> p + 1"
    show "?patched ! i = bytes ! i"
    proof (cases "i < p")
      case True
      then show ?thesis using lp by (simp add: nth_append)
    next
      case False
      with ne have "p + 2 \<le> i" by simp
      then obtain k where k: "i = p + 2 + k" by (metis le_Suc_ex)
      have "?patched ! i = (htons_bytes ?v @ drop (p + 2) bytes) ! (2 + k)"
        using lp k by (simp add: nth_append)
      also have "\<dots> = drop (p + 2) bytes ! k"
        by (simp add: nth_append htons_bytes_def)
      also have "\<dots> = bytes ! i" using k i len by simp
      finally show ?thesis .
    qed
  qed
  from l3 p new len l two rd rest show ?thesis by blast
qed

theorem assign_patch_frame_witness:
  "bsc_mgcp_assign_patch ex_nat 0 (Some (ex_assignment 0x21)) (Some 4)
     = Inr (0, ex_nat_assigned, Some (ex_assignment 1))
   \<and> (\<exists>bytes p patched. Some (ex_assignment 0x21) = Some bytes \<and> Some (4::nat) = Some p
         \<and> Some (ex_assignment 1) = Some patched
         \<and> p + 2 \<le> length bytes \<and> length patched = length bytes
         \<and> [patched ! p, patched ! (p + 1)]
             = htons_bytes (create_cic (bsc_endp (sccp_heap ex_nat_assigned 0)))
         \<and> ntohs_at patched p = create_cic (bsc_endp (sccp_heap ex_nat_assigned 0))
         \<and> (\<forall>i < length bytes. i \<noteq> p \<and> i \<noteq> p + 1 \<longrightarrow> patched ! i = bytes ! i))"
  using assign_patch_frame [OF ex_first_assignment] ex_first_assignment by simp

section \<open>Proofs: session teardown\<close>

text \<open>
  C9.  Whenever \<^verbatim>\<open>bsc_mgcp_dlcx\<close> returns, the session's \<open>msc_endp\<close> and \<open>bsc_endp\<close>
  are -1.  When \<open>bsc_endp\<close> is already -1 or the status array of the BSC is not
  allocated, it returns the NAT with nothing but the session changed: no status byte is
  touched and no DLCX is sent.  Otherwise, with both indices inside their arrays, it
  clears the status byte, sends the DLCX, frees the pending slot at \<open>msc_endp\<close> and
  resets the session.
\<close>

theorem bsc_mgcp_dlcx_resets:
  "(\<forall>n1. bsc_mgcp_dlcx nt c = Inr n1 \<longrightarrow>
       msc_endp (sccp_heap n1 c) = -1 \<and> bsc_endp (sccp_heap n1 c) = -1)
   \<and> (bsc_endp (sccp_heap nt c) = -1
        \<or> endpoint_status (bsc_heap nt (con_bsc (sccp_heap nt c))) = None
      \<longrightarrow> bsc_mgcp_dlcx nt c =
            Inr (nt\<lparr>sccp_heap := (sccp_heap nt)
                     (c := (sccp_heap nt c)\<lparr>msc_endp := -1, bsc_endp := -1\<rparr>)\<rparr>))
   \<and> (bsc_endp (sccp_heap nt c) \<noteq> -1
        \<and> endpoint_status (bsc_heap nt (con_bsc (sccp_heap nt c))) = Some st
        \<and> in_range (bsc_endp (sccp_heap nt c)) st
        \<and> in_range (msc_endp (sccp_heap nt c)) (bsc_endpoints nt)
      \<longrightarrow> bsc_mgcp_dlcx nt c =
            Inr (nt\<lparr>bsc_heap := (bsc_heap nt)(con_bsc (sccp_heap nt c) :=
                       bsc_mgcp_send_dlcx
                         ((bsc_heap nt (con_bsc (sccp_heap nt c)))
                            \<lparr>endpoint_status :=
                               Some (st[nat (bsc_endp (sccp_heap nt c)) := 0])\<rparr>)
                         (bsc_endp (sccp_heap nt c))),
                    bsc_endpoints := (bsc_endpoints nt)[nat (msc_endp (sccp_heap nt c)) :=
                       (bsc_endpoints nt ! nat (msc_endp (sccp_heap nt c)))
                         \<lparr>transaction_id := None, transaction_state := 0, bsc := None\<rparr>],
                    sccp_heap := (sccp_heap nt)
                      (c := (sccp_heap nt c)\<lparr>msc_endp := -1, bsc_endp := -1\<rparr>)\<rparr>))"
proof (intro conjI allI impI)
  fix n1 assume "bsc_mgcp_dlcx nt c = Inr n1"
  then show "msc_endp (sccp_heap n1 c) = -1" "bsc_endp (sccp_heap n1 c) = -1"
    using dlcx_reset by blast+
next
  assume "bsc_endp (sccp_heap nt c) = -1
        \<or> endpoint_status (bsc_heap nt (con_bsc (sccp_heap nt c))) = None"
  then show "bsc_mgcp_dlcx nt c =
            Inr (nt\<lparr>sccp_heap := (sccp_heap nt)
                     (c := (sccp_heap nt c)\<lparr>msc_endp := -1, bsc_endp := -1\<rparr>)\<rparr>)"
    by (rule dlcx_unbound)
next
  assume "bsc_endp (sccp_heap nt c) \<noteq> -1
        \<and> endpoint_status (bsc_heap nt (con_bsc (sccp_heap nt c))) = Some st
        \<and> in_range (bsc_endp (sccp_heap nt c)) st
        \<and> in_range (msc_endp (sccp_heap nt c)) (bsc_endpoints nt)"
  then show "bsc_mgcp_dlcx nt c =
            Inr (nt\<lparr>bsc_heap := (bsc_heap nt)(con_bsc (sccp_heap nt c) :=
                       bsc_mgcp_send_dlcx
                         ((bsc_heap nt (con_bsc (sccp_heap nt c)))
                            \<lparr>endpoint_status :=
                               Some (st[nat (bsc_endp (sccp_heap nt c)) := 0])\<rparr>)
                         (bsc_endp (sccp_heap nt c))),
                    bsc_endpoints := (bsc_endpoints nt)[nat (msc_endp (sccp_heap nt c)) :=
                       (bsc_endpoints nt ! nat (msc_endp (sccp_heap nt c)))
                         \<lparr>transaction_id := None, transaction_state := 0, bsc := None\<rparr>],
                    sccp_heap := (sccp_heap nt)
                      (c := (sccp_heap nt c)\<lparr>msc_endp := -1, bsc_endp := -1\<rparr>)\<rparr>)"
    using dlcx_bound by blast
qed

theorem bsc_mgcp_dlcx_resets_witness:
  "bsc_endp (sccp_heap ex_nat 2) = -1
   \<and> bsc_mgcp_dlcx ex_nat 2 = Inr (ex_nat\<lparr>sccp_heap := (sccp_heap ex_nat)(2 := ex_con)\<rparr>)
   \<and> bsc_endp (sccp_heap ex_nat_assigned 0) = 1
   \<and> endpoint_status (bsc_heap ex_nat_assigned 0) = Some ((replicate 33 0)[1 := 1])
   \<and> bsc_mgcp_dlcx ex_nat_assigned 0 =
        Inr (ex_nat_assigned
               \<lparr>bsc_heap := (bsc_heap ex_nat_assigned)
                   (0 := ex_bsc_used\<lparr>endpoint_status := Some ((replicate 33 0)[1 := 0]),
                                     bsc_out := [ex_dlcx]\<rparr>),
                bsc_endpoints := (bsc_endpoints ex_nat_assigned)[33 := empty_slot],
                sccp_heap := (sccp_heap ex_nat_assigned)(0 := ex_con)\<rparr>)"
proof -
  have a: "bsc_endp (sccp_heap ex_nat 2) = -1"
    by (simp add: ex_nat_def ex_con_def)
  have b: "bsc_endp (sccp_heap ex_nat_assigned 0) \<noteq> -1
        \<and> endpoint_status (bsc_heap ex_nat_assigned (con_bsc (sccp_heap ex_nat_assigned 0)))
            = Some ((replicate 33 0)[1 := 1])
        \<and> in_range (bsc_endp (sccp_heap ex_nat_assigned 0)) ((replicate 33 (0::u8))[1 := 1])
        \<and> in_range (msc_endp (sccp_heap ex_nat_assigned 0)) (bsc_endpoints ex_nat_assigned)"
    by (simp add: ex_nat_assigned_def ex_nat_def ex_bsc_used_def in_range_def)
  have px: "printf_x 1 = ''1''"
    by (simp add: printf_x_def u32_def hex_digits.simps hex_char_def)
  from bsc_mgcp_dlcx_resets [of ex_nat 2 "[]"] a
  have one: "bsc_mgcp_dlcx ex_nat 2 = Inr (ex_nat\<lparr>sccp_heap := (sccp_heap ex_nat)(2 := ex_con)\<rparr>)"
    by (simp add: ex_nat_def ex_con_def)
  from bsc_mgcp_dlcx_resets [of ex_nat_assigned 0 "(replicate 33 0)[1 := 1]"] b
  have two: "bsc_mgcp_dlcx ex_nat_assigned 0 =
        Inr (ex_nat_assigned
               \<lparr>bsc_heap := (bsc_heap ex_nat_assigned)
                   (0 := ex_bsc_used\<lparr>endpoint_status := Some ((replicate 33 0)[1 := 0]),
                                     bsc_out := [ex_dlcx]\<rparr>),
                bsc_endpoints := (bsc_endpoints ex_nat_assigned)[33 := empty_slot],
                sccp_heap := (sccp_heap ex_nat_assigned)(0 := ex_con)\<rparr>)"
    by (simp add: ex_nat_assigned_def ex_nat_def ex_bsc_used_def ex_con_def empty_slot_def
        bsc_mgcp_send_dlcx_def px ex_dlcx_def)
  from a one two show ?thesis
    by (simp add: ex_nat_assigned_def ex_nat_def ex_bsc_used_def)
qed

section \<open>Proofs: the MGCP rewriter\<close>

lemma strsep_append:
  assumes "LF \<in> set body"
  shows "strsep_lf (body @ seg) =
     (takeWhile (\<lambda>c. c \<noteq> LF) body, Some (tl (dropWhile (\<lambda>c. c \<noteq> LF) body) @ seg))"
proof -
  from assms obtain x where x: "x \<in> set body" "\<not> x \<noteq> LF" by auto
  have "dropWhile (\<lambda>c. c \<noteq> LF) body \<noteq> []" using assms by simp
  moreover have "takeWhile (\<lambda>c. c \<noteq> LF) (body @ seg) = takeWhile (\<lambda>c. c \<noteq> LF) body"
    using x by (rule takeWhile_append1)
  moreover have "dropWhile (\<lambda>c. c \<noteq> LF) (body @ seg) = dropWhile (\<lambda>c. c \<noteq> LF) body @ seg"
    using x by (rule dropWhile_append1)
  ultimately show ?thesis using assms by (simp add: strsep_lf_def)
qed

lemma rest_terminated:
  assumes "LF \<in> set body" "last body = LF"
  shows "tl (dropWhile (\<lambda>c. c \<noteq> LF) body) = []
       \<or> last (tl (dropWhile (\<lambda>c. c \<noteq> LF) body)) = LF"
proof -
  let ?d = "dropWhile (\<lambda>c. c \<noteq> LF) body"
  have ne: "?d \<noteq> []" using assms by simp
  have "body = takeWhile (\<lambda>c. c \<noteq> LF) body @ ?d" by simp
  then have "last body = last ?d" using ne by (metis last_appendR)
  then have l: "last ?d = LF" using assms by simp
  show ?thesis
  proof (cases "tl ?d = []")
    case True then show ?thesis by simp
  next
    case False
    then have "last ?d = last (tl ?d)" using ne by (metis last_tl)
    with l show ?thesis by simp
  qed
qed

lemma rest_shorter:
  assumes "LF \<in> set body"
  shows "length (tl (dropWhile (\<lambda>c. c \<noteq> LF) body)) < length body"
proof -
  have "dropWhile (\<lambda>c. c \<noteq> LF) body \<noteq> []" using assms by simp
  then show ?thesis
    using length_dropWhile_le [of "\<lambda>c. c \<noteq> LF" body]
    by (cases "dropWhile (\<lambda>c. c \<noteq> LF) body") auto
qed

lemma rewrite_loop_drops_tail:
  assumes seg: "LF \<notin> set seg"
  shows "body = [] \<or> last body = LF \<Longrightarrow>
     rewrite_loop endpoint ip port (body @ seg) s = rewrite_loop endpoint ip port body s"
proof (induction body arbitrary: s rule: length_induct)
  case (1 body)
  show ?case
  proof (cases "LF \<in> set body")
    case False
    with "1.prems" have "body = []"
      by (metis last_in_set)
    then show ?thesis using seg
      by (simp add: rewrite_loop.simps [of _ _ _ seg] rewrite_loop.simps [of _ _ _ "[]"]
          strsep_lf_def)
  next
    case True
    let ?rest = "tl (dropWhile (\<lambda>c. c \<noteq> LF) body)"
    from True "1.prems" have lb: "last body = LF" by auto
    have r: "?rest = [] \<or> last ?rest = LF" using True lb by (rule rest_terminated)
    have ih: "\<And>s1. rewrite_loop endpoint ip port (?rest @ seg) s1
                = rewrite_loop endpoint ip port ?rest s1"
      using "1.IH" rest_shorter [OF True] r by blast
    have a: "strsep_lf (body @ seg) = (takeWhile (\<lambda>c. c \<noteq> LF) body, Some (?rest @ seg))"
      using True by (rule strsep_append)
    have b: "strsep_lf body = (takeWhile (\<lambda>c. c \<noteq> LF) body, Some ?rest)"
      using True by (simp add: strsep_lf_def)
    show ?thesis
      unfolding rewrite_loop.simps [of endpoint ip port "body @ seg" s]
        rewrite_loop.simps [of endpoint ip port body s] a b
      by (simp add: ih split: sum.splits option.splits)
  qed
qed

text \<open>
  C10.  The loop of \<^verbatim>\<open>bsc_mgcp_rewrite\<close> runs its body only on tokens that a line feed
  ended: a segment without a line feed after the last line feed of the input (or an
  input without any line feed) changes nothing, the result is the result for the input
  without that segment.
\<close>

theorem rewrite_ignores_unterminated:
  assumes "LF \<notin> set seg" and "body = [] \<or> last body = LF"
  shows "bsc_mgcp_rewrite (body @ seg) len endpoint ip port
       = bsc_mgcp_rewrite body len endpoint ip port"
  unfolding bsc_mgcp_rewrite_def
  using rewrite_loop_drops_tail [OF assms] by simp

lemmas rewrite_eval = bsc_mgcp_rewrite_def rewrite_loop.simps strsep_lf_def rewrite_line_def
  set_out_def
  put_bytes_def write_at_def msgb_alloc_rewritten_def patch_mgcp_def scan_str_def isspace_def
  scan_audio_def scan_lit_def scan_number_def isdigit_def dec_value_def printf_d_def printf_x_def
  dec_digits.simps hex_digits.simps hex_char_def line_end_def append_fmtp_def u32_def Let_def

lemma ex_rewrite_short:
  "bsc_mgcp_rewrite (''v=0'' @ [CR, LF]) 13 1 ''10.0.0.1'' 4000 = Inr (Some (''v=0'' @ [CR, LF]))"
  by (simp add: rewrite_eval)

theorem rewrite_ignores_unterminated_witness:
  "LF \<notin> set ''m=audio 4000 RTP''
   \<and> last (''v=0'' @ [CR, LF]) = LF
   \<and> bsc_mgcp_rewrite ((''v=0'' @ [CR, LF]) @ ''m=audio 4000 RTP'') 13 1 ''10.0.0.1'' 4000
       = Inr (Some (''v=0'' @ [CR, LF]))"
proof -
  have h: "LF \<notin> set ''m=audio 4000 RTP''"
    "(''v=0'' @ [CR, LF]) = [] \<or> last (''v=0'' @ [CR, LF]) = LF"
    by simp_all
  from rewrite_ignores_unterminated [OF h, of 13 1 "''10.0.0.1''" 4000] h ex_rewrite_short
  show ?thesis by simp
qed

lemma put_bytes_out:
  assumes "put_bytes m bytes = Inr m1"
  shows "take (msg_len m1) (msg_data m1) = take (msg_len m) (msg_data m) @ bytes"
proof -
  from assms have le: "msg_len m + length bytes \<le> length (msg_data m)"
    and m1: "m1 = m\<lparr>msg_data := write_at (msg_len m) bytes (msg_data m),
                  msg_len := msg_len m + length bytes, msg_l3h := msg_len m\<rparr>"
    by (auto simp: put_bytes_def split: if_splits)
  then show ?thesis by (simp add: write_at_def)
qed

lemma take_shorter: "take n t = p \<Longrightarrow> m \<le> n \<Longrightarrow> take m t = take m p"
  using take_take [of m n t] by (simp add: min_def)

lemma prefix_clash:
  assumes "take 7 token = ''a=fmtp:''"
  shows "take 5 token \<noteq> ''CRCX ''" "take 5 token \<noteq> ''DLCX ''" "take 5 token \<noteq> ''MDCX ''"
    "take 9 token \<noteq> ''c=IN IP4 ''" "take 8 token \<noteq> ''m=audio ''"
proof -
  have a: "take 5 token = ''a=fmt''" using take_shorter [OF assms, of 5] by simp
  show "take 5 token \<noteq> ''CRCX ''" "take 5 token \<noteq> ''DLCX ''" "take 5 token \<noteq> ''MDCX ''"
    unfolding a by simp_all
  show "take 9 token \<noteq> ''c=IN IP4 ''"
  proof
    assume "take 9 token = ''c=IN IP4 ''"
    from take_shorter [OF this, of 7] assms show False by simp
  qed
  show "take 8 token \<noteq> ''m=audio ''"
  proof
    assume "take 8 token = ''m=audio ''"
    from take_shorter [OF this, of 7] assms show False by simp
  qed
qed

lemma prefix_clash_audio:
  assumes "take 8 token = ''m=audio ''"
  shows "take 5 token \<noteq> ''CRCX ''" "take 5 token \<noteq> ''DLCX ''" "take 5 token \<noteq> ''MDCX ''"
    "take 9 token \<noteq> ''c=IN IP4 ''" "take 7 token \<noteq> ''a=fmtp:''"
proof -
  have a: "take 5 token = ''m=aud''" using take_shorter [OF assms, of 5] by simp
  show "take 5 token \<noteq> ''CRCX ''" "take 5 token \<noteq> ''DLCX ''" "take 5 token \<noteq> ''MDCX ''"
    unfolding a by simp_all
  show "take 9 token \<noteq> ''c=IN IP4 ''"
  proof
    assume "take 9 token = ''c=IN IP4 ''"
    from take_shorter [OF this, of 8] assms show False by simp
  qed
  show "take 7 token \<noteq> ''a=fmtp:''"
    using take_shorter [OF assms, of 7] by simp
qed

lemma ends_cr_nth: "(0 < length token \<and> token ! (length token - 1) = CR) = ends_cr token"
  by (auto simp: ends_cr_def last_conv_nth)

lemma set_out_flags:
  assumes "set_out s2 r = Inr (Some s1)"
  shows "found_fmtp s1 = found_fmtp s2 \<and> payload s1 = payload s2 \<and> cr s1 = cr s2"
  using assms by (cases r) (auto simp: set_out_def)

lemma rewrite_line_flags:
  assumes "rewrite_line endpoint ip port token s = Inr (Some s1)"
  shows "found_fmtp s1 = (found_fmtp s \<or> take 7 token = ''a=fmtp:'')
    \<and> payload s1 = (if take 8 token = ''m=audio ''
                      then (case scan_audio token of Some (Inr v) \<Rightarrow> v | _ \<Rightarrow> payload s)
                      else payload s)
    \<and> cr s1 = ends_cr token"
proof -
  let ?s1 = "s\<lparr>cr := ends_cr token\<rparr>"
  note d = rewrite_line_def Let_def ends_cr_nth
  consider (verb) "take 5 token = ''CRCX '' \<or> take 5 token = ''DLCX '' \<or> take 5 token = ''MDCX ''"
    | (ip) "take 9 token = ''c=IN IP4 ''" "take 5 token \<noteq> ''CRCX ''"
        "take 5 token \<noteq> ''DLCX ''" "take 5 token \<noteq> ''MDCX ''"
    | (audio) "take 8 token = ''m=audio ''"
    | (fmtp) "take 7 token = ''a=fmtp:''"
    | (other) "take 5 token \<noteq> ''CRCX ''" "take 5 token \<noteq> ''DLCX ''" "take 5 token \<noteq> ''MDCX ''"
        "take 9 token \<noteq> ''c=IN IP4 ''" "take 8 token \<noteq> ''m=audio ''" "take 7 token \<noteq> ''a=fmtp:''"
    by blast
  then show ?thesis
  proof cases
    case verb
    then obtain op where "set_out ?s1 (patch_mgcp (out_msg s) op token endpoint (ends_cr token))
        = Inr (Some s1)"
      using assms unfolding d by (auto split: if_splits)
    from set_out_flags [OF this] have f: "found_fmtp s1 = found_fmtp s"
      "payload s1 = payload s" "cr s1 = ends_cr token" by simp_all
    have "take 7 token \<noteq> ''a=fmtp:''" "take 8 token \<noteq> ''m=audio ''"
      using verb prefix_clash(1-3) [of token] prefix_clash_audio(1-3) [of token] by auto
    with f show ?thesis by simp
  next
    case ip
    then obtain m2 where "set_out ?s1 (put_bytes m2 (line_end (ends_cr token))) = Inr (Some s1)"
      using assms unfolding d by (simp split: sum.splits)
    from set_out_flags [OF this] have f: "found_fmtp s1 = found_fmtp s"
      "payload s1 = payload s" "cr s1 = ends_cr token" by simp_all
    have "take 7 token \<noteq> ''a=fmtp:''" "take 8 token \<noteq> ''m=audio ''"
      using ip(1) prefix_clash(4) [of token] prefix_clash_audio(4) [of token] by auto
    with f show ?thesis by simp
  next
    case audio
    note n = prefix_clash_audio [OF audio]
    from assms obtain pt r where pt: "scan_audio token = Some (Inr pt)"
      and "set_out (?s1\<lparr>payload := pt\<rparr>) r = Inr (Some s1)"
      unfolding d using n audio by (simp split: option.splits sum.splits)
    from set_out_flags [OF this(2)] have f: "found_fmtp s1 = found_fmtp s"
      "payload s1 = pt" "cr s1 = ends_cr token" by simp_all
    with n audio pt show ?thesis by simp
  next
    case fmtp
    note n = prefix_clash [OF fmtp]
    from assms obtain r where "set_out (?s1\<lparr>found_fmtp := True\<rparr>) r = Inr (Some s1)"
      unfolding d using n fmtp by simp
    from set_out_flags [OF this] have f: "found_fmtp s1"
      "payload s1 = payload s" "cr s1 = ends_cr token" by simp_all
    with n fmtp show ?thesis by simp
  next
    case other
    from assms obtain r where "set_out ?s1 r = Inr (Some s1)"
      unfolding d using other by simp
    from set_out_flags [OF this] have f: "found_fmtp s1 = found_fmtp s"
      "payload s1 = payload s" "cr s1 = ends_cr token" by simp_all
    with other show ?thesis by simp
  qed
qed

lemma lf_tokens_step:
  "strsep_lf running = (token, Some rest) \<Longrightarrow> lf_tokens running = token # lf_tokens rest"
  "strsep_lf running = (token, None) \<Longrightarrow> lf_tokens running = []"
  by (simp_all add: lf_tokens.simps [of running])

lemma rewrite_loop_flags:
  "rewrite_loop endpoint ip port running s = Inr (Some s1) \<Longrightarrow>
     found_fmtp s1 = (found_fmtp s \<or> list_ex (\<lambda>t. take 7 t = ''a=fmtp:'') (lf_tokens running))
     \<and> payload s1 = last_payload (payload s) (lf_tokens running)
     \<and> cr s1 = (if lf_tokens running = [] then cr s else ends_cr (last (lf_tokens running)))"
proof (induction endpoint ip port running s rule: rewrite_loop.induct)
  case (1 endpoint ip port running s)
  obtain token ro where sep: "strsep_lf running = (token, ro)" by (cases "strsep_lf running")
  show ?case
  proof (cases ro)
    case None
    with sep "1.prems" show ?thesis
      by (simp add: rewrite_loop.simps [of _ _ _ running] lf_tokens_step(2))
  next
    case (Some rest)
    with sep "1.prems" obtain s2 where line: "rewrite_line endpoint ip port token s = Inr (Some s2)"
      and loop: "rewrite_loop endpoint ip port rest s2 = Inr (Some s1)"
      by (simp add: rewrite_loop.simps [of _ _ _ running] split: sum.splits option.splits)
    have toks: "lf_tokens running = token # lf_tokens rest"
      using sep Some by (simp add: lf_tokens_step(1))
    from "1.IH" [OF sep [symmetric] Some line refl loop]
    have ih: "found_fmtp s1 = (found_fmtp s2 \<or> list_ex (\<lambda>t. take 7 t = ''a=fmtp:'') (lf_tokens rest))"
      "payload s1 = last_payload (payload s2) (lf_tokens rest)"
      "cr s1 = (if lf_tokens rest = [] then cr s2 else ends_cr (last (lf_tokens rest)))"
      by simp_all
    from rewrite_line_flags [OF line] ih toks show ?thesis by auto
  qed
qed

lemma dec_digits_length: "0 < k \<Longrightarrow> n < 10 ^ k \<Longrightarrow> length (dec_digits n) \<le> k"
proof (induction k arbitrary: n)
  case 0
  then show ?case by simp
next
  case (Suc k)
  show ?case
  proof (cases "n < 10")
    case True
    then show ?thesis by (simp add: dec_digits.simps [of n])
  next
    case False
    with Suc.prems have k: "0 < k" by (cases k) auto
    from Suc.prems have "n div 10 < 10 ^ k" by (simp add: less_mult_imp_div_less mult.commute)
    from Suc.IH [OF k this] False show ?thesis by (simp add: dec_digits.simps [of n])
  qed
qed

lemma printf_d_length:
  assumes "- (2 ^ 31) \<le> i" "i < 2 ^ 31"
  shows "length (printf_d i) \<le> 11"
proof -
  have "nat (- i) < 10 ^ 10" "nat i < 10 ^ 10" using assms by simp_all
  then have "length (dec_digits (nat (- i))) \<le> 10" "length (dec_digits (nat i)) \<le> 10"
    using dec_digits_length [of 10] by simp_all
  then show ?thesis by (simp add: printf_d_def)
qed

lemma scan_audio_range:
  "scan_audio t = Some (Inr v) \<Longrightarrow> - (2 ^ 31) \<le> v \<and> v < 2 ^ 31"
  by (auto simp: scan_audio_def Let_def split: option.splits if_splits)

lemma last_payload_range:
  "- (2 ^ 31) \<le> pt \<and> pt < 2 ^ 31 \<Longrightarrow>
     - (2 ^ 31) \<le> last_payload pt ts \<and> last_payload pt ts < 2 ^ 31"
proof (induction ts arbitrary: pt)
  case Nil
  then show ?case by simp
next
  case (Cons t ts)
  have "- (2 ^ 31) \<le> (if take 8 t = ''m=audio ''
                   then (case scan_audio t of Some (Inr v) \<Rightarrow> v | _ \<Rightarrow> pt)
                   else pt)
     \<and> (if take 8 t = ''m=audio ''
                   then (case scan_audio t of Some (Inr v) \<Rightarrow> v | _ \<Rightarrow> pt)
                   else pt) < 2 ^ 31"
    using Cons.prems scan_audio_range [of t]
    by (auto split: option.splits sum.splits)
  from Cons.IH [OF this] show ?case by simp
qed

lemma fmtp_line_short:
  assumes "- (2 ^ 31) \<le> pt" "pt < 2 ^ 31"
  shows "take 126 (''a=fmtp:'' @ printf_d pt @ '' mode-set=2'' @ line_end c)
       = ''a=fmtp:'' @ printf_d pt @ '' mode-set=2'' @ line_end c"
proof -
  have "length (line_end c) \<le> 2" by (simp add: line_end_def)
  with printf_d_length [OF assms]
  have "length (''a=fmtp:'' @ printf_d pt @ '' mode-set=2'' @ line_end c) \<le> 126" by simp
  then show ?thesis by (rule take_all)
qed

text \<open>
  C8 (as amended).  Whenever \<^verbatim>\<open>bsc_mgcp_rewrite\<close> returns a message, the message is
  what the scan of the lines wrote, followed by the line \<^verbatim>\<open>a=fmtp:<payload> mode-set=2\<close>
  with the line ending of the last line scanned exactly when no \<^verbatim>\<open>a=fmtp:\<close> line was
  scanned anywhere in the input, before or after an \<^verbatim>\<open>m=audio\<close> line, and the payload
  type that the last \<^verbatim>\<open>m=audio\<close> line left is not -1 (the value that stands for no
  \<^verbatim>\<open>m=audio\<close> line); otherwise nothing is appended.
\<close>

theorem rewrite_appends_fmtp:
  assumes "bsc_mgcp_rewrite input len endpoint ip port = Inr (Some out)"
  shows "\<exists>s. rewrite_loop endpoint ip port input
              \<lparr>out_msg = msgb_alloc_rewritten, found_fmtp = False, payload = -1, cr = True\<rparr>
            = Inr (Some s)
       \<and> out = take (msg_len (out_msg s)) (msg_data (out_msg s))
               @ (if \<not> list_ex (\<lambda>t. take 7 t = ''a=fmtp:'') (lf_tokens input)
                     \<and> last_payload (-1) (lf_tokens input) \<noteq> -1
                  then ''a=fmtp:'' @ printf_d (last_payload (-1) (lf_tokens input))
                       @ '' mode-set=2'' @ line_end (last_cr (lf_tokens input))
                  else [])"
proof -
  let ?init = "\<lparr>out_msg = msgb_alloc_rewritten, found_fmtp = False, payload = -1, cr = True\<rparr>"
  from assms obtain s where loop: "rewrite_loop endpoint ip port input ?init = Inr (Some s)"
    by (auto simp: bsc_mgcp_rewrite_def split: if_splits sum.splits option.splits)
  from rewrite_loop_flags [OF loop]
  have f: "found_fmtp s = list_ex (\<lambda>t. take 7 t = ''a=fmtp:'') (lf_tokens input)"
    "payload s = last_payload (-1) (lf_tokens input)"
    "cr s = last_cr (lf_tokens input)"
    by (simp_all add: last_cr_def)
  have rng: "- (2 ^ 31) \<le> payload s" "payload s < 2 ^ 31"
    using last_payload_range [of "-1" "lf_tokens input"] f(2) by simp_all
  have app: "append_fmtp s =
      (if \<not> found_fmtp s \<and> payload s \<noteq> -1
       then ''a=fmtp:'' @ printf_d (payload s) @ '' mode-set=2'' @ line_end (cr s) else [])"
    unfolding append_fmtp_def using fmtp_line_short [OF rng] by simp
  have "out = take (msg_len (out_msg s)) (msg_data (out_msg s)) @ append_fmtp s"
  proof (cases "\<not> found_fmtp s \<and> payload s \<noteq> -1")
    case True
    with assms loop obtain m where put: "put_bytes (out_msg s) (append_fmtp s) = Inr m"
      and out: "out = take (msg_len m) (msg_data m)"
      by (auto simp: bsc_mgcp_rewrite_def split: if_splits sum.splits)
    from put_bytes_out [OF put] out show ?thesis by simp
  next
    case False
    with assms loop show ?thesis
      by (auto simp: bsc_mgcp_rewrite_def append_fmtp_def split: if_splits)
  qed
  with loop app f show ?thesis by auto
qed

lemma lf_tokens_none: "LF \<notin> set running \<Longrightarrow> lf_tokens running = []"
  by (simp add: lf_tokens.simps [of running] strsep_lf_def)

lemma lf_tokens_line:
  "LF \<in> set running \<Longrightarrow>
     lf_tokens running = takeWhile (\<lambda>c. c \<noteq> LF) running
                           # lf_tokens (tl (dropWhile (\<lambda>c. c \<noteq> LF) running))"
  by (simp add: lf_tokens.simps [of running] strsep_lf_def)

lemma ex_rewrite_crcx:
  "bsc_mgcp_rewrite ex_crcx (int (length ex_crcx)) 1 ''10.0.0.1'' 4000 = Inr (Some ex_crcx_out)"
  by (simp add: rewrite_eval ex_crcx_def ex_crcx_out_def)

lemma ex_crcx_tokens:
  "lf_tokens ex_crcx = [''CRCX 1234 21@mgw MGCP 1.0'' @ [CR], [CR], ''c=IN IP4 1.1.1.1'' @ [CR],
                        ''m=audio 4000 RTP/AVP 8'' @ [CR]]"
  by (simp add: ex_crcx_def lf_tokens_none lf_tokens_line)

lemma ex_crcx_flags:
  "\<not> list_ex (\<lambda>t. take 7 t = ''a=fmtp:'') (lf_tokens ex_crcx)"
  "last_payload (-1) (lf_tokens ex_crcx) = 8"
  "last_cr (lf_tokens ex_crcx)"
  unfolding ex_crcx_tokens
  by (simp_all add: last_cr_def ends_cr_def scan_audio_def scan_lit_def scan_number_def
      isspace_def isdigit_def dec_value_def Let_def)

theorem rewrite_appends_fmtp_witness:
  "bsc_mgcp_rewrite ex_crcx (int (length ex_crcx)) 1 ''10.0.0.1'' 4000 = Inr (Some ex_crcx_out)
   \<and> (\<exists>s. rewrite_loop 1 ''10.0.0.1'' 4000 ex_crcx
              \<lparr>out_msg = msgb_alloc_rewritten, found_fmtp = False, payload = -1, cr = True\<rparr>
            = Inr (Some s)
        \<and> ex_crcx_out = take (msg_len (out_msg s)) (msg_data (out_msg s))
                         @ (''a=fmtp:8 mode-set=2'' @ [CR, LF]))"
proof -
  have p: "printf_d 8 = ''8''" by (simp add: printf_d_def dec_digits.simps hex_char_def)
  from rewrite_appends_fmtp [OF ex_rewrite_crcx] ex_rewrite_crcx show ?thesis
    by (simp add: ex_crcx_flags p line_end_def)
qed

lemma ex_fmtp_first_tokens:
  "lf_tokens ex_fmtp_first = [''a=fmtp:8 mode-set=2'', ''m=audio 4000 RTP/AVP 8'']"
  by (simp add: ex_fmtp_first_def lf_tokens_none lf_tokens_line)

text \<open>
  The claim as stated fails where the \<^verbatim>\<open>a=fmtp:\<close> line comes before the \<^verbatim>\<open>m=audio\<close>
  line: an \<^verbatim>\<open>m=audio\<close> line was seen and no \<^verbatim>\<open>a=fmtp:\<close> line followed it, and the
  rewriter appends nothing.
\<close>

theorem rewrite_appends_fmtp_counterexample:
  "lf_tokens ex_fmtp_first = [''a=fmtp:8 mode-set=2'', ''m=audio 4000 RTP/AVP 8'']
   \<and> spec_fmtp_wanted (lf_tokens ex_fmtp_first)
   \<and> bsc_mgcp_rewrite ex_fmtp_first (int (length ex_fmtp_first)) 1 ''10.0.0.1'' 5000
       = Inr (Some (''a=fmtp:8 mode-set=2'' @ [LF] @ ''m=audio 5000 RTP/AVP 8'' @ [LF]))"
proof -
  have "bsc_mgcp_rewrite ex_fmtp_first (int (length ex_fmtp_first)) 1 ''10.0.0.1'' 5000
       = Inr (Some (''a=fmtp:8 mode-set=2'' @ [LF] @ ''m=audio 5000 RTP/AVP 8'' @ [LF]))"
    by (simp add: rewrite_eval ex_fmtp_first_def)
  then show ?thesis by (simp add: ex_fmtp_first_tokens)
qed

section \<open>Proofs: the pending-slot invariant\<close>

lemma slot_ok_free [simp]: "slot_ok (e\<lparr>transaction_id := None, transaction_state := 0, bsc := None\<rparr>)"
  by (simp add: slot_ok_def)








lemma find_con_loop_some:
  "find_con_loop h e l acc = Some c \<Longrightarrow>
     acc = Some c \<or> (c \<in> set l \<and> msc_endp (h c) = e \<and> e \<noteq> -1)"
  by (induction l arbitrary: acc) (auto split: if_splits)

lemma find_con_some:
  "bsc_mgcp_find_con nt e = Some c \<Longrightarrow>
     c \<in> set (sccp_list nt) \<and> msc_endp (sccp_heap nt c) = e \<and> e \<noteq> -1"
  unfolding bsc_mgcp_find_con_def by (drule find_con_loop_some) simp








lemma forward_find_some:
  "forward_find slots bp t l = Inr (Some i) \<Longrightarrow>
     i \<in> set l \<and> i < length slots \<and> bsc (slots ! i) = Some bp
     \<and> transaction_id (slots ! i) = Some t"
  by (induction l) (auto split: if_splits)












subsection \<open>The example transaction\<close>




lemma ex_parse_reply:
  "bsc_mgcp_parse_response (c_str ex_reply) = Some (200, ''1234'')"
  "bsc_mgcp_parse_response (c_str ex_reply_no_ci) = Some (200, ''1234'')"
  by (simp_all add: bsc_mgcp_parse_response_def c_str_def ex_reply_def ex_reply_no_ci_def
      scan_number_def scan_str_def isspace_def isdigit_def dec_value_def Let_def)

lemma ex_extract_ci:
  "bsc_mgcp_extract_ci (c_str ex_reply) = Inr 57"
  "bsc_mgcp_extract_ci (c_str ex_reply_no_ci) = Inr CI_UNUSED"
  by (simp_all add: bsc_mgcp_extract_ci_def strstr_def c_str_def ex_reply_def ex_reply_no_ci_def
      scan_number_def scan_lit_def isspace_def isdigit_def dec_value_def Let_def CI_UNUSED_def
      upt_rec [of 0])

lemma forward_find_skip:
  assumes "\<forall>j \<in> set pre. j < length slots \<and> bsc (slots ! j) \<noteq> Some bp"
    and "i < length slots" "bsc (slots ! i) = Some bp" "transaction_id (slots ! i) = Some t"
  shows "forward_find slots bp t (pre @ i # post) = Inr (Some i)"
  using assms by (induction pre) auto

lemma ex_upt: "[1..<nat 64] = [1..<33] @ 33 # [34..<64]"
proof -
  have "[1..<33 + 31] = [1..<33] @ [33..<33 + 31]" by (rule upt_add_eq_append) simp
  moreover have "[33..<33 + 31] = 33 # [34..<(64::nat)]" by (simp add: upt_rec [of 33])
  ultimately show ?thesis by simp
qed

lemma ex_forward_find:
  "forward_find (bsc_endpoints ex_nat_pending) 0 ''1234'' [1..<nat (number_endpoints ex_nat_pending)]
     = Inr (Some 33)"
proof -
  have n: "number_endpoints ex_nat_pending = 64"
    by (simp add: ex_nat_pending_def ex_nat_assigned_def ex_nat_def)
  show ?thesis unfolding n ex_upt
    by (rule forward_find_skip)
      (auto simp: ex_nat_pending_def ex_nat_assigned_def ex_nat_def empty_slot_def nth_list_update)
qed


lemma ex_forward_no_ci:
  "bsc_mgcp_forward ex_free_endp ex_nat_pending 0 ex_reply_no_ci = Inr ex_nat_no_ci"
proof -
  have fc: "bsc_mgcp_find_con ex_nat_pending 33 = Some 0"
    by (simp add: bsc_mgcp_find_con_def ex_nat_pending_def ex_nat_assigned_def ex_nat_def ex_con_def)
  have px: "printf_x 1 = ''1''"
    by (simp add: printf_x_def u32_def hex_digits.simps hex_char_def)
  have fm: "forward_matched ex_free_endp ex_nat_pending 0 ex_reply_no_ci 33 = Inr ex_nat_no_ci"
    unfolding forward_matched_def Let_def ex_extract_ci free_chan_downstream_def
    by (simp add: CI_UNUSED_def ex_nat_pending_def ex_nat_assigned_def ex_nat_def
        ex_nat_no_ci_def ex_endp_def MGCP_ENDP_CRCX_def bsc_mgcp_find_con_def ex_con_def
        bsc_mgcp_free_endpoint_def in_range_def bsc_mgcp_send_dlcx_def px ex_dlcx_def
        ex_bsc_used_def ex_free_endp_def empty_slot_def)
  show ?thesis
    unfolding bsc_mgcp_forward_def ex_parse_reply
    using ex_forward_find fm by (simp add: ex_reply_no_ci_def)
qed







section \<open>Proofs: the reply forwarder\<close>

lemma find_con_endpoints:
  "bsc_mgcp_find_con (nt\<lparr>endpoints := x\<rparr>) e = bsc_mgcp_find_con nt e"
  by (simp add: bsc_mgcp_find_con_def)

lemma send_dlcx_status:
  "endpoint_status (bsc_mgcp_send_dlcx b e) = endpoint_status b"
  by (simp add: bsc_mgcp_send_dlcx_def)

text \<open>
  C2 (as amended).  When a reply of the BSC matches a pending slot, has no connection
  identifier and the pending verb is CRCX, \<^verbatim>\<open>bsc_mgcp_forward\<close> returns with the pending
  slot freed and the endpoint handed to \<^verbatim>\<open>mgcp_free_endp\<close>.  It writes a DLCX for the
  session's BSC endpoint to the BSC if the endpoint has a session and the session belongs
  to this BSC, and writes nothing otherwise.  In every case it does not run the session
  teardown: the sessions, with their \<open>msc_endp\<close> and \<open>bsc_endp\<close>, and the status array of
  every BSC stay as they are, and nothing goes to the call agent.
\<close>

theorem forward_no_ci_crcx:
  assumes len: "length msg \<le> 2000"
    and parse: "bsc_mgcp_parse_response (c_str msg) = Some (code, t)"
    and found: "forward_find (bsc_endpoints nt) bp t [1..<nat (number_endpoints nt)]
                  = Inr (Some i)"
    and rng: "i < length (endpoints nt)"
    and no_ci: "bsc_mgcp_extract_ci (c_str msg) = Inr CI_UNUSED"
    and crcx: "transaction_state (bsc_endpoints nt ! i) = MGCP_ENDP_CRCX"
  shows "\<exists>nf. bsc_mgcp_forward free_endp nt bp msg = Inr nf
       \<and> bsc_heap nf =
            (case bsc_mgcp_find_con nt (int i) of
               None \<Rightarrow> bsc_heap nt
             | Some c \<Rightarrow>
                 if con_bsc (sccp_heap nt c) = bp
                 then (bsc_heap nt)
                        (bp := bsc_mgcp_send_dlcx (bsc_heap nt bp) (bsc_endp (sccp_heap nt c)))
                 else bsc_heap nt)
       \<and> bsc_endpoints nf = (bsc_endpoints nt)[i :=
            (bsc_endpoints nt ! i)\<lparr>transaction_id := None, transaction_state := 0, bsc := None\<rparr>]
       \<and> endpoints nf = (endpoints nt)[i := free_endp ((endpoints nt ! i)\<lparr>ci := CI_UNUSED\<rparr>)]
       \<and> sccp_heap nf = sccp_heap nt \<and> sccp_list nf = sccp_list nt
       \<and> (\<forall>c. bsc_mgcp_find_con nt (int i) = Some c \<longrightarrow> msc_endp (sccp_heap nf c) = int i)
       \<and> (\<forall>b. endpoint_status (bsc_heap nf b) = endpoint_status (bsc_heap nt b))
       \<and> call_agent_out nf = call_agent_out nt"
proof -
  from forward_find_some [OF found] have i: "i < length (bsc_endpoints nt)" by simp
  define n1 where "n1 = nt\<lparr>endpoints := (endpoints nt)[i := (endpoints nt ! i)\<lparr>ci := CI_UNUSED\<rparr>]\<rparr>"
  define h where "h =
            (case bsc_mgcp_find_con nt (int i) of
               None \<Rightarrow> bsc_heap nt
             | Some c \<Rightarrow>
                 if con_bsc (sccp_heap nt c) = bp
                 then (bsc_heap nt)
                        (bp := bsc_mgcp_send_dlcx (bsc_heap nt bp) (bsc_endp (sccp_heap nt c)))
                 else bsc_heap nt)"
  have fw: "bsc_mgcp_forward free_endp nt bp msg = free_chan_downstream free_endp n1 i bp"
    unfolding bsc_mgcp_forward_def forward_matched_def Let_def n1_def
    using len parse found rng no_ci by simp
  have fc: "bsc_mgcp_find_con n1 (int i) = bsc_mgcp_find_con nt (int i)"
    unfolding n1_def find_con_endpoints ..
  have f: "bsc_endpoints n1 = bsc_endpoints nt" "sccp_heap n1 = sccp_heap nt"
    "bsc_heap n1 = bsc_heap nt" "endpoints n1 = (endpoints nt)[i := (endpoints nt ! i)\<lparr>ci := CI_UNUSED\<rparr>]"
    "call_agent_out n1 = call_agent_out nt" "sccp_list n1 = sccp_list nt"
    by (simp_all add: n1_def)
  have "free_chan_downstream free_endp n1 i bp =
      Inr (n1\<lparr>bsc_heap := h,
              bsc_endpoints := (bsc_endpoints nt)[i :=
                 (bsc_endpoints nt ! i)\<lparr>transaction_id := None, transaction_state := 0, bsc := None\<rparr>],
              endpoints := (endpoints nt)[i := free_endp ((endpoints nt ! i)\<lparr>ci := CI_UNUSED\<rparr>)]\<rparr>)"
    unfolding free_chan_downstream_def Let_def fc h_def
    using crcx i rng
    by (simp add: f bsc_mgcp_free_endpoint_def in_range_def split: option.splits)
  with fw have run: "bsc_mgcp_forward free_endp nt bp msg =
      Inr (n1\<lparr>bsc_heap := h,
              bsc_endpoints := (bsc_endpoints nt)[i :=
                 (bsc_endpoints nt ! i)\<lparr>transaction_id := None, transaction_state := 0, bsc := None\<rparr>],
              endpoints := (endpoints nt)[i := free_endp ((endpoints nt ! i)\<lparr>ci := CI_UNUSED\<rparr>)]\<rparr>)"
    by simp
  have st: "endpoint_status (h b) = endpoint_status (bsc_heap nt b)" for b
    by (simp add: h_def send_dlcx_status split: option.splits)
  have ms: "bsc_mgcp_find_con nt (int i) = Some c \<Longrightarrow> msc_endp (sccp_heap nt c) = int i" for c
    using find_con_some [of nt "int i" c] by simp
  show ?thesis
    unfolding run h_def [symmetric]
    using st ms by (simp add: f)
qed

lemma ex_pending_facts:
  "transaction_state (bsc_endpoints ex_nat_pending ! 33) = MGCP_ENDP_CRCX"
  "bsc_mgcp_find_con ex_nat_pending 33 = Some 0"
  "con_bsc (sccp_heap ex_nat_pending 0) = 0"
  "length (endpoints ex_nat_pending) = 64"
  "sccp_heap ex_nat_pending 0 = \<lparr>con_bsc = 0, msc_endp = 33, bsc_endp = 1\<rparr>"
  "endpoint_status (bsc_heap ex_nat_pending 0) = Some ((replicate 33 0)[1 := 1])"
  by (simp_all add: bsc_mgcp_find_con_def ex_nat_pending_def ex_nat_assigned_def ex_nat_def
      ex_con_def ex_bsc_used_def)

theorem forward_no_ci_crcx_witness:
  "length ex_reply_no_ci \<le> 2000
   \<and> bsc_mgcp_parse_response (c_str ex_reply_no_ci) = Some (200, ''1234'')
   \<and> forward_find (bsc_endpoints ex_nat_pending) 0 ''1234''
        [1..<nat (number_endpoints ex_nat_pending)] = Inr (Some 33)
   \<and> bsc_mgcp_extract_ci (c_str ex_reply_no_ci) = Inr CI_UNUSED
   \<and> transaction_state (bsc_endpoints ex_nat_pending ! 33) = MGCP_ENDP_CRCX
   \<and> bsc_mgcp_find_con ex_nat_pending 33 = Some 0
   \<and> (\<exists>nf. bsc_mgcp_forward ex_free_endp ex_nat_pending 0 ex_reply_no_ci = Inr nf
         \<and> bsc_heap nf = (bsc_heap ex_nat_pending)
              (0 := bsc_mgcp_send_dlcx (bsc_heap ex_nat_pending 0) 1)
         \<and> sccp_heap nf = sccp_heap ex_nat_pending
         \<and> endpoint_status (bsc_heap nf 0) = Some ((replicate 33 0)[1 := 1])
         \<and> msc_endp (sccp_heap nf 0) = 33)"
proof -
  have l: "length ex_reply_no_ci \<le> 2000" by (simp add: ex_reply_no_ci_def)
  have r: "33 < length (endpoints ex_nat_pending)" by (simp add: ex_pending_facts)
  have c: "transaction_state (bsc_endpoints ex_nat_pending ! 33) = MGCP_ENDP_CRCX"
    by (rule ex_pending_facts)
  have fc: "bsc_mgcp_find_con ex_nat_pending (int 33) = Some 0"
    using ex_pending_facts(2) by simp
  from forward_no_ci_crcx [OF l ex_parse_reply(2) ex_forward_find r ex_extract_ci(2) c,
      of ex_free_endp]
  obtain nf where run: "bsc_mgcp_forward ex_free_endp ex_nat_pending 0 ex_reply_no_ci = Inr nf"
    and h: "bsc_heap nf =
            (case bsc_mgcp_find_con ex_nat_pending (int 33) of
               None \<Rightarrow> bsc_heap ex_nat_pending
             | Some c \<Rightarrow>
                 if con_bsc (sccp_heap ex_nat_pending c) = 0
                 then (bsc_heap ex_nat_pending)
                        (0 := bsc_mgcp_send_dlcx (bsc_heap ex_nat_pending 0)
                                (bsc_endp (sccp_heap ex_nat_pending c)))
                 else bsc_heap ex_nat_pending)"
    and s: "sccp_heap nf = sccp_heap ex_nat_pending"
    and e: "\<forall>b. endpoint_status (bsc_heap nf b) = endpoint_status (bsc_heap ex_nat_pending b)"
    by blast
  from h have h': "bsc_heap nf = (bsc_heap ex_nat_pending)
              (0 := bsc_mgcp_send_dlcx (bsc_heap ex_nat_pending 0) 1)"
    unfolding fc by (simp add: ex_pending_facts)
  from e have e': "endpoint_status (bsc_heap nf 0) = Some ((replicate 33 0)[1 := 1])"
    by (simp add: ex_pending_facts)
  from s have m: "msc_endp (sccp_heap nf 0) = 33" by (simp add: ex_pending_facts)
  from run h' s e' m have "\<exists>nf. bsc_mgcp_forward ex_free_endp ex_nat_pending 0 ex_reply_no_ci = Inr nf
         \<and> bsc_heap nf = (bsc_heap ex_nat_pending)
              (0 := bsc_mgcp_send_dlcx (bsc_heap ex_nat_pending 0) 1)
         \<and> sccp_heap nf = sccp_heap ex_nat_pending
         \<and> endpoint_status (bsc_heap nf 0) = Some ((replicate 33 0)[1 := 1])
         \<and> msc_endp (sccp_heap nf 0) = 33"
    by (intro exI [of _ nf] conjI)
  with l ex_parse_reply(2) ex_forward_find ex_extract_ci(2) c ex_pending_facts(2)
  show ?thesis by (intro conjI)
qed

text \<open>
  After the CRCX 1234 for endpoint 33 and a reply of the BSC without an \<^verbatim>\<open>I: \<close> line, the
  DLCX is sent and the slot is empty, but session 0 still holds MSC endpoint 33 and BSC
  endpoint 1, and the status byte of BSC endpoint 1 is still 1.
\<close>

theorem forward_no_ci_crcx_counterexample:
  "bsc_mgcp_parse_response (c_str ex_reply_no_ci) = Some (200, ''1234'')
   \<and> transaction_id (bsc_endpoints ex_nat_pending ! 33) = Some ''1234''
   \<and> transaction_state (bsc_endpoints ex_nat_pending ! 33) = MGCP_ENDP_CRCX
   \<and> bsc_mgcp_extract_ci (c_str ex_reply_no_ci) = Inr CI_UNUSED
   \<and> bsc_mgcp_find_con ex_nat_pending 33 = Some 0
   \<and> bsc_mgcp_forward ex_free_endp ex_nat_pending 0 ex_reply_no_ci = Inr ex_nat_no_ci
   \<and> sccp_heap ex_nat_no_ci 0 = \<lparr>con_bsc = 0, msc_endp = 33, bsc_endp = 1\<rparr>
   \<and> endpoint_status (bsc_heap ex_nat_no_ci 0) = Some ((replicate 33 0)[1 := 1])
   \<and> the (endpoint_status (bsc_heap ex_nat_no_ci 0)) ! 1 = 1
   \<and> bsc_out (bsc_heap ex_nat_no_ci 0) = [ex_crcx_out, ex_mdcx, ex_dlcx]
   \<and> bsc_endpoints ex_nat_no_ci ! 33 = empty_slot"
  using ex_parse_reply(2) ex_extract_ci(2) ex_pending_facts ex_forward_no_ci
  by (simp add: ex_nat_no_ci_def ex_nat_pending_def ex_nat_assigned_def ex_nat_def ex_bsc_used_def)

section \<open>Proofs: replies that no transaction waits for\<close>







subsection \<open>The example transactions\<close>









end
